theory Spec2Isabelle
  imports Main "HOL-Library.Char_ord" "HOL-Library.List_Lexorder" "HOL-Library.Multiset"
begin

section \<open>Python values, exceptions and the world a notebook runs in\<close>

text \<open>
  The repository is a set of Jupyter notebooks. A notebook is a script: its cells run top
  to bottom in one kernel, every statement either computes a Python value, touches the
  local disk, or calls out (to the SageMaker / boto3 SDK, to another library, to a helper
  module of the repository, to a shell command). A run stops at the first exception that
  reaches the top of a cell; a cell under the \<open>%%time\<close> magic never lets one through (see
  \<open>timed\<close> below).

  The model is a state-and-exception monad over a \<open>world\<close>. The world records what the
  notebooks can observe or change: the calls made so far (\<open>trace\<close>), the local disk, the
  experiments that exist in the remote service, and the answers of everything that is not
  code of the notebooks (whether an outside call raises, what it returns, what it does to
  the disk). These answers are fields of the world, indexed by the position of the call in
  the trace, so a theorem quantified over worlds holds for every behaviour of the SDK.

  Strings are Python \<open>str\<close> values; with \<open>Char_ord\<close> and \<open>List_Lexorder\<close> the order on
  \<open>string\<close> is the lexicographic order on character codes, which is the order of Python's
  \<open>sorted\<close> and \<open><\<close> on \<open>str\<close>.
\<close>

datatype exn =
    SdkError string
  | LibError string
  | KeyError string
  | IndexError
  | FileNotFoundError string
  | FileExistsError string
  | NameError string

text \<open>
  A pandas \<open>DataFrame\<close>: the column labels, and the rows in order, each with its index
  label and its cells.
\<close>

record frame =
  columns :: "string list"
  rows :: "(nat \<times> string list) list"

text \<open>
  What a run does to the outside, in order. \<open>Deploy\<close> creates an endpoint, identified from
  then on by the position of that event in the trace; \<open>Predict\<close> and \<open>DeleteEndpoint\<close>
  name the endpoint they act on. \<open>Repo\<close> is a call of a function defined in another file of
  the repository (file, function, arguments). \<open>Def\<close> is an executed \<open>def\<close> statement.
  \<open>Raised\<close> records that the call before it raised. \<open>Shown\<close> records that the \<open>%%time\<close>
  magic caught an exception, showed its traceback and ended the cell.
\<close>

datatype event =
    Sdk string "string list"
  | Deploy string "string list"
  | Predict nat string
  | DeleteEndpoint nat
  | Lib string "string list"
  | Repo string string "string list"
  | Shell string
  | Def string
  | Raised exn
  | Shown exn

text \<open>
  The local disk, one store per kind of file the notebooks keep there: text files
  (\<open>.lst\<close> manifests, \<open>orig_sm_version.txt\<close>), pickled strings
  (\<open>builtin_bucket_name.pickle\<close>), pickled dictionaries (\<open>category_labels.pickle\<close>, as the list
  of its items in insertion order), CSV files as \<open>read_csv\<close> parses them (header and
  data rows), the \<open>*.jpg\<close> files below \<open>./data_structured\<close> in the order \<open>rglob\<close> yields
  them, each as its \<open>parts\<close>, and the directories that exist below the working directory.
\<close>

record disk =
  text_files :: "string \<rightharpoonup> string"
  str_pickles :: "string \<rightharpoonup> string"
  dict_pickles :: "string \<rightharpoonup> (string \<times> string) list"
  csv_files :: "string \<rightharpoonup> string list \<times> string list list"
  jpg_paths :: "string list list"
  dirs :: "string set"

text \<open>
  \<open>raises n\<close>, \<open>returns n\<close> and \<open>effect n\<close> answer for the outside call made when the trace
  has length \<open>n\<close>. \<open>sdk_version\<close> is \<open>sagemaker.__version__\<close>. \<open>sampled n\<close> are the row
  positions \<open>DataFrame.sample(frac=0.7, random_state=42)\<close> picks from \<open>n\<close> rows (their number,
  \<open>round(0.7 * n)\<close> in floating point, is part of the answer). \<open>render_csv\<close> is the text
  \<open>DataFrame.to_csv(index=False)\<close> produces.
\<close>

record world =
  trace :: "event list"
  raises :: "nat \<Rightarrow> string option"
  returns :: "nat \<Rightarrow> string"
  effect :: "nat \<Rightarrow> disk \<Rightarrow> disk"
  disk :: disk
  experiments :: "string list"
  sdk_version :: string
  sampled :: "nat \<Rightarrow> nat list"
  render_csv :: "string list \<times> string list list \<Rightarrow> string"

type_synonym 'a nb = "world \<Rightarrow> (exn + 'a) \<times> world"

subsection \<open>Statements\<close>

definition ret :: "'a \<Rightarrow> 'a nb" where
  "ret x w = (Inr x, w)"

definition raise :: "exn \<Rightarrow> 'a nb" where
  "raise e w = (Inl e, w)"

definition lift :: "exn + 'a \<Rightarrow> 'a nb" where
  "lift r w = (r, w)"

definition bind :: "'a nb \<Rightarrow> ('a \<Rightarrow> 'b nb) \<Rightarrow> 'b nb" where
  "bind m f w = (case m w of (Inl e, w') \<Rightarrow> (Inl e, w') | (Inr x, w') \<Rightarrow> f x w')"

definition gets :: "(world \<Rightarrow> 'a) \<Rightarrow> 'a nb" where
  "gets f w = (Inr (f w), w)"

definition update_disk :: "(disk \<Rightarrow> disk) \<Rightarrow> unit nb" where
  "update_disk f w = (Inr (), w\<lparr>disk := f (disk w)\<rparr>)"

fun for_each :: "'a list \<Rightarrow> ('a \<Rightarrow> unit nb) \<Rightarrow> unit nb" where
  "for_each [] body = ret ()"
| "for_each (x # xs) body = bind (body x) (\<lambda>_. for_each xs body)"

text \<open>
  A cell under the \<open>%%time\<close> magic. IPython 7 and 8 run the cell as
  \<^verbatim>\<open>
    try:
        exec(code, glob, local_ns)
    except:
        self.shell.showtraceback()
        return
  \<close>
  so when a statement of the cell raises, the traceback is shown, the rest of the cell is
  skipped and the cell ends without an error: the run goes on with the next cell. \<open>vars\<close>
  are the variables the cell assigns, \<open>None\<close> while unbound; each statement hands them on,
  its own bound.
\<close>

fun timed :: "'v \<Rightarrow> ('v \<Rightarrow> 'v nb) list \<Rightarrow> 'v nb" where
  "timed vars [] w = (Inr vars, w)"
| "timed vars (stmt # rest) w =
     (case stmt vars w of
        (Inl e, w') \<Rightarrow> (Inr vars, w'\<lparr>trace := trace w' @ [Shown e]\<rparr>)
      | (Inr vars', w') \<Rightarrow> timed vars' rest w')"

text \<open>
  Reading a name that a \<open>%%time\<close> cell may have left unbound. A name is looked up where it
  is first read after the cell; once found it stays bound.
\<close>

definition lookup :: "string \<Rightarrow> 'a option \<Rightarrow> 'a nb" where
  "lookup name v = (case v of None \<Rightarrow> raise (NameError name) | Some x \<Rightarrow> ret x)"

text \<open>
  A call to the outside: the event is recorded, the outside may change the disk, and the
  call either raises or returns.
\<close>

definition ext :: "event \<Rightarrow> (string \<Rightarrow> exn) \<Rightarrow> string nb" where
  "ext ev mk w =
     (let n = length (trace w);
          w' = w\<lparr>trace := trace w @ [ev], disk := effect w n (disk w)\<rparr>
      in case raises w n of
           None \<Rightarrow> (Inr (returns w n), w')
         | Some msg \<Rightarrow> (Inl (mk msg), w'\<lparr>trace := (trace w @ [ev]) @ [Raised (mk msg)]\<rparr>))"

definition sdk :: "string \<Rightarrow> string list \<Rightarrow> string nb" where
  "sdk name args = ext (Sdk name args) SdkError"

definition lib :: "string \<Rightarrow> string list \<Rightarrow> string nb" where
  "lib name args = ext (Lib name args) LibError"

definition repo :: "string \<Rightarrow> string \<Rightarrow> string list \<Rightarrow> string nb" where
  "repo file name args = ext (Repo file name args) LibError"

text \<open>
  \<open>!cmd\<close>, \<open>%pip\<close> and \<open>subprocess.run(cmd, shell=True)\<close> (without \<open>check=True\<close>): the command
  runs, and its exit status is not looked at.
\<close>

definition shell :: "string \<Rightarrow> unit nb" where
  "shell cmd w =
     (Inr (), w\<lparr>trace := trace w @ [Shell cmd], disk := effect w (length (trace w)) (disk w)\<rparr>)"

definition def_fun :: "string \<Rightarrow> unit nb" where
  "def_fun name w = (Inr (), w\<lparr>trace := trace w @ [Def name]\<rparr>)"

definition deploy :: "string \<Rightarrow> string list \<Rightarrow> nat nb" where
  "deploy model args w = bind (ext (Deploy model args) SdkError) (\<lambda>_. ret (length (trace w))) w"

definition predict :: "nat \<Rightarrow> string \<Rightarrow> string nb" where
  "predict endpoint payload = ext (Predict endpoint payload) SdkError"

definition delete_endpoint :: "nat \<Rightarrow> unit nb" where
  "delete_endpoint endpoint = bind (ext (DeleteEndpoint endpoint) SdkError) (\<lambda>_. ret ())"

subsection \<open>The experiments service\<close>

text \<open>
  \<open>smexperiments\<close> as one client sees it: \<open>Experiment.list\<close> returns the experiments that
  exist, \<open>Experiment.create\<close> adds one and refuses a name that is taken, \<open>Experiment.load\<close>
  refuses a name that does not exist. Each may also fail like any other SDK call.
\<close>

definition sdk_raise :: "string \<Rightarrow> 'a nb" where
  "sdk_raise msg w = (Inl (SdkError msg), w\<lparr>trace := trace w @ [Raised (SdkError msg)]\<rparr>)"

definition experiment_list :: "string list nb" where
  "experiment_list = bind (sdk ''Experiment.list'' []) (\<lambda>_. gets experiments)"

definition add_experiment :: "string \<Rightarrow> unit nb" where
  "add_experiment experiment_name w =
     (Inr (), w\<lparr>experiments := experiments w @ [experiment_name]\<rparr>)"

definition experiment_create :: "string \<Rightarrow> string \<Rightarrow> string nb" where
  "experiment_create experiment_name client =
     bind (sdk ''Experiment.create'' [experiment_name, client]) (\<lambda>_.
     bind (gets experiments) (\<lambda>existing.
     if experiment_name \<in> set existing then sdk_raise ''ResourceInUse''
     else bind (add_experiment experiment_name) (\<lambda>_. ret experiment_name)))"

definition experiment_load :: "string \<Rightarrow> string \<Rightarrow> string nb" where
  "experiment_load experiment_name client =
     bind (sdk ''Experiment.load'' [experiment_name, client]) (\<lambda>_.
     bind (gets experiments) (\<lambda>existing.
     if experiment_name \<in> set existing then ret experiment_name
     else sdk_raise ''ResourceNotFound''))"

subsection \<open>Formatting\<close>

definition digit :: "nat \<Rightarrow> char" where
  "digit d = ''0123456789'' ! d"

text \<open>\<open>str(n)\<close> for a non-negative integer.\<close>

fun str_nat :: "nat \<Rightarrow> string" where
  "str_nat n = (if n < 10 then [digit n] else str_nat (n div 10) @ [digit (n mod 10)])"

declare str_nat.simps [simp del]

text \<open>The format specification \<open>:010\<close> on a non-negative integer pads with zeros on the left.\<close>

definition zfill :: "nat \<Rightarrow> string \<Rightarrow> string" where
  "zfill width s = replicate (width - length s) (CHR ''0'') @ s"

text \<open>\<open>s.split(c)\<close> and \<open>c.join(parts)\<close>.\<close>

fun split_on :: "char \<Rightarrow> string \<Rightarrow> string list" where
  "split_on c [] = [[]]"
| "split_on c (x # xs) =
     (if x = c then [] # split_on c xs
      else (case split_on c xs of [] \<Rightarrow> [[x]] | part # parts \<Rightarrow> (x # part) # parts))"

fun join_with :: "string \<Rightarrow> string list \<Rightarrow> string" where
  "join_with sep [] = []"
| "join_with sep [part] = part"
| "join_with sep (part # parts) = part @ sep @ join_with sep parts"

text \<open>\<open>os.path.dirname\<close> of a relative path written with \<open>/\<close>.\<close>

definition dirname :: "string \<Rightarrow> string" where
  "dirname path = join_with ''/'' (butlast (split_on (CHR ''/'') path))"

subsection \<open>Files\<close>

text \<open>
  Files named without a directory part are in the working directory, which exists. A file
  in another directory can be created only when that directory exists.
\<close>

definition in_directory :: "string \<Rightarrow> string \<Rightarrow> unit nb" where
  "in_directory dir path =
     bind (gets (\<lambda>w. dir \<in> dirs (disk w))) (\<lambda>present.
     if present then ret () else raise (FileNotFoundError path))"

text \<open>
  \<open>pathlib.Path(dir).mkdir(exist_ok=True)\<close> for a directory directly below the working
  directory: a file of that name is a \<open>FileExistsError\<close>.
\<close>

definition mkdir :: "string \<Rightarrow> unit nb" where
  "mkdir dir =
     bind (gets (\<lambda>w. text_files (disk w) dir \<noteq> None \<or> str_pickles (disk w) dir \<noteq> None
                      \<or> dict_pickles (disk w) dir \<noteq> None \<or> csv_files (disk w) dir \<noteq> None))
       (\<lambda>is_file.
     if is_file then raise (FileExistsError dir)
     else update_disk (\<lambda>d. d\<lparr>dirs := insert dir (dirs d)\<rparr>))"


definition text_exists :: "string \<Rightarrow> bool nb" where
  "text_exists path = gets (\<lambda>w. text_files (disk w) path \<noteq> None)"

definition read_text :: "string \<Rightarrow> string nb" where
  "read_text path =
     bind (gets (\<lambda>w. text_files (disk w) path)) (\<lambda>content.
     case content of None \<Rightarrow> raise (FileNotFoundError path) | Some s \<Rightarrow> ret s)"

definition write_text :: "string \<Rightarrow> string \<Rightarrow> unit nb" where
  "write_text path s = update_disk (\<lambda>d. d\<lparr>text_files := (text_files d)(path \<mapsto> s)\<rparr>)"

text \<open>
  \<open>open(path, 'a')\<close> and \<open>f.write(s)\<close> for a file of the working directory: the file is
  created when it is missing.
\<close>

definition append_text :: "string \<Rightarrow> string \<Rightarrow> unit nb" where
  "append_text path s =
     update_disk (\<lambda>d. d\<lparr>text_files := (text_files d)
       (path \<mapsto> (case text_files d path of None \<Rightarrow> [] | Some old \<Rightarrow> old) @ s)\<rparr>)"

definition remove_text :: "string \<Rightarrow> unit nb" where
  "remove_text path =
     bind (gets (\<lambda>w. text_files (disk w) path)) (\<lambda>content.
     case content of
       None \<Rightarrow> raise (FileNotFoundError path)
     | Some _ \<Rightarrow> update_disk (\<lambda>d. d\<lparr>text_files := (text_files d)(path := None)\<rparr>))"

text \<open>
  \<open>shutil.copy(src, dir + '/')\<close> for a file of the working directory: the source is opened
  first, then the copy \<open>dir/src\<close> is written.
\<close>

definition copy_text :: "string \<Rightarrow> string \<Rightarrow> unit nb" where
  "copy_text src dir =
     bind (read_text src) (\<lambda>s.
     bind (in_directory dir (dir @ ''/'')) (\<lambda>_.
     write_text (dir @ ''/'' @ src) s))"

definition pickle_exists :: "string \<Rightarrow> bool nb" where
  "pickle_exists path = gets (\<lambda>w. str_pickles (disk w) path \<noteq> None)"

definition load_str_pickle :: "string \<Rightarrow> string nb" where
  "load_str_pickle path =
     bind (gets (\<lambda>w. str_pickles (disk w) path)) (\<lambda>content.
     case content of None \<Rightarrow> raise (FileNotFoundError path) | Some s \<Rightarrow> ret s)"

text \<open>
  \<^verbatim>\<open>
    with open(path, 'wb') as f:
        pickle.dump(s, f)
  \<close>
  for a path with a directory part: \<open>open\<close> raises \<open>FileNotFoundError\<close> when the directory
  is missing.
\<close>

definition dump_str_pickle :: "string \<Rightarrow> string \<Rightarrow> unit nb" where
  "dump_str_pickle path s =
     bind (in_directory (dirname path) path) (\<lambda>_.
     update_disk (\<lambda>d. d\<lparr>str_pickles := (str_pickles d)(path \<mapsto> s)\<rparr>))"

definition load_dict_pickle :: "string \<Rightarrow> (string \<times> string) list nb" where
  "load_dict_pickle path =
     bind (gets (\<lambda>w. dict_pickles (disk w) path)) (\<lambda>content.
     case content of None \<Rightarrow> raise (FileNotFoundError path) | Some d \<Rightarrow> ret d)"

section \<open>Values the notebooks compute\<close>

subsection \<open>The manual \<open>.lst\<close> manifest (preprocessing notebook)\<close>

text \<open>
  \<^verbatim>\<open>category_ids = {name: idx for idx, name in enumerate(sorted(category_labels.values()))}\<close>

  A later item of the comprehension overwrites an earlier one with the same key.
\<close>

definition category_ids :: "(string \<times> string) list \<Rightarrow> (string \<rightharpoonup> nat)" where
  "category_ids category_labels =
     fold (\<lambda>(idx, name) ids. ids(name \<mapsto> idx))
          (enumerate 0 (sort (map snd category_labels))) Map.empty"

text \<open>\<open>parts[-k]\<close> for \<open>k \<ge> 1\<close>: an \<open>IndexError\<close> when the path has fewer than \<open>k\<close> parts.\<close>

definition part_from_end :: "string list \<Rightarrow> nat \<Rightarrow> exn + string" where
  "part_from_end parts k =
     (if k \<le> length parts then Inr (parts ! (length parts - k)) else Inl IndexError)"

definition as_posix :: "string list \<Rightarrow> string" where
  "as_posix parts = (if parts = [] then ''.'' else join_with ''/'' parts)"

text \<open>
  One round of the loop, up to the write: the file the line goes to and the line.
  \<^verbatim>\<open>
    image_id = f'{idx:010}'
    category = category_ids[p.parts[-2]]
    path = p.as_posix()
    split = p.parts[-3]
    with open(f'{split}.lst', 'a') as f:
        line = f"{image_id}\t{category}\t{path}\n"
  \<close>
\<close>

definition lst_entry :: "(string \<rightharpoonup> nat) \<Rightarrow> nat \<Rightarrow> string list \<Rightarrow> exn + string \<times> string" where
  "lst_entry ids idx p =
     (let image_id = zfill 10 (str_nat idx) in
      case part_from_end p 2 of
        Inl e \<Rightarrow> Inl e
      | Inr parent \<Rightarrow>
          (case ids parent of
             None \<Rightarrow> Inl (KeyError parent)
           | Some category \<Rightarrow>
               (let path = as_posix p in
                case part_from_end p 3 of
                  Inl e \<Rightarrow> Inl e
                | Inr split \<Rightarrow>
                    Inr (split @ ''.lst'',
                         image_id @ [CHR 0x09] @ str_nat category @ [CHR 0x09] @ path @ [CHR 0x0A]))))"

definition manual_lst :: "(string \<rightharpoonup> nat) \<Rightarrow> unit nb" where
  "manual_lst ids =
     bind (gets (\<lambda>w. jpg_paths (disk w))) (\<lambda>image_paths.
     for_each (enumerate 0 image_paths) (\<lambda>(idx, p).
       bind (lift (lst_entry ids idx p)) (\<lambda>(fname, line).
       append_text fname line)))"

subsection \<open>Data frames (AutoGluon notebook)\<close>

definition df_index :: "frame \<Rightarrow> nat list" where
  "df_index df = map fst (rows df)"

text \<open>\<open>pd.read_csv(path)\<close>: the rows get the index labels \<open>0, 1, 2, ...\<close>.\<close>

definition read_csv :: "string \<Rightarrow> frame nb" where
  "read_csv path =
     bind (gets (\<lambda>w. csv_files (disk w) path)) (\<lambda>content.
     case content of
       None \<Rightarrow> raise (FileNotFoundError path)
     | Some (header, data) \<Rightarrow> ret \<lparr>columns = header, rows = enumerate 0 data\<rparr>)"

text \<open>\<open>df.take(positions)\<close>, which \<open>sample\<close> ends in: a position out of range is an \<open>IndexError\<close>.\<close>

definition df_take :: "nat list \<Rightarrow> frame \<Rightarrow> exn + frame" where
  "df_take positions df =
     (if \<forall>i \<in> set positions. i < length (rows df)
      then Inr (df\<lparr>rows := map (\<lambda>i. rows df ! i) positions\<rparr>)
      else Inl IndexError)"

definition df_sample :: "frame \<Rightarrow> frame nb" where
  "df_sample df =
     bind (gets (\<lambda>w. sampled w (length (rows df)))) (\<lambda>positions. lift (df_take positions df))"

text \<open>\<open>df.drop(labels)\<close>: every row whose index label is listed goes; a label that is not in
  the index is a \<open>KeyError\<close>.\<close>

definition df_drop :: "nat list \<Rightarrow> frame \<Rightarrow> exn + frame" where
  "df_drop labels df =
     (if set labels \<subseteq> set (df_index df)
      then Inr (df\<lparr>rows := filter (\<lambda>r. fst r \<notin> set labels) (rows df)\<rparr>)
      else Inl (KeyError ''not found in axis''))"

text \<open>\<open>df[name]\<close>: the column as a series (index label and value).\<close>

definition df_column :: "string \<Rightarrow> frame \<Rightarrow> exn + (nat \<times> string) list" where
  "df_column name df =
     (if name \<in> set (columns df)
      then Inr (map (\<lambda>(i, cells).
                  (i, case map_of (zip (columns df) cells) name of None \<Rightarrow> ''nan'' | Some v \<Rightarrow> v))
                (rows df))
      else Inl (KeyError name))"

text \<open>\<open>df.drop(columns=names)\<close>.\<close>

definition df_drop_columns :: "string list \<Rightarrow> frame \<Rightarrow> exn + frame" where
  "df_drop_columns names df =
     (if set names \<subseteq> set (columns df)
      then Inr \<lparr>columns = filter (\<lambda>c. c \<notin> set names) (columns df),
                rows = map (\<lambda>(i, cells).
                         (i, map snd (filter (\<lambda>(c, v). c \<notin> set names) (zip (columns df) cells))))
                       (rows df)\<rparr>
      else Inl (KeyError ''not found in axis''))"

text \<open>
  \<open>df.to_csv(index=False)\<close> is the text pandas renders from the parsed values, and
  \<open>df.to_csv(path, index=False)\<close> writes that text to a file of the working directory.
\<close>

definition to_csv_text :: "frame \<Rightarrow> string nb" where
  "to_csv_text df = gets (\<lambda>w. render_csv w (columns df, map snd (rows df)))"

definition to_csv_file :: "frame \<Rightarrow> string \<Rightarrow> unit nb" where
  "to_csv_file df path = bind (to_csv_text df) (\<lambda>text. write_text path text)"

section \<open>The notebooks\<close>

text \<open>
  Each notebook is one program, its cells in order. Left out are \<open>import\<close> statements,
  display calls and display settings, conversions between arrays and lists, and attribute
  assignments on SDK objects; of a \<open>print\<close> only the reading of a name that may be unbound
  is kept. A literal configuration value that is used in one place appears where it is
  used. Keyword arguments are passed as \<open>key=value\<close>; the value an SDK object stands for
  is the string its constructor returned.
\<close>

subsection \<open>TensorFlow Serving with Elastic Inference\<close>

text \<open>
  Three cells are \<open>%%time\<close> cells: the one that sets \<open>region\<close> and \<open>saved_model\<close>, the one
  that deploys, and the one that predicts. \<open>print(predictor.endpoint)\<close> is a cell of its
  own.
\<close>

definition tensorflow_serving_pretrained_model_elastic_inference :: "unit nb" where
  "tensorflow_serving_pretrained_model_elastic_inference =
     bind (timed (None, None)
             [\<lambda>(region, saved_model).
                bind (sdk ''boto3.Session().region_name'' []) (\<lambda>r. ret (Some r, saved_model)),
              \<lambda>(region, saved_model).
                bind (lookup ''region'' region) (\<lambda>r.
                ret (region, Some (''s3://sagemaker-sample-data-'' @ r
                       @ ''/tensorflow/model/resnet/resnet_50_v2_fp32_NCHW.tar.gz'')))])
       (\<lambda>(region, saved_model).
     bind (sdk ''sagemaker.get_execution_role'' []) (\<lambda>role.
     bind (lookup ''saved_model'' saved_model) (\<lambda>saved_model.
     bind (sdk ''sagemaker.tensorflow.serving.Model''
             [''model_data='' @ saved_model, ''role='' @ role, ''framework_version=1.14''])
       (\<lambda>tensorflow_model.
     bind (timed None
             [\<lambda>predictor.
                bind (deploy tensorflow_model
                        [''initial_instance_count=1'', ''instance_type=ml.m4.xlarge'',
                         ''accelerator_type=ml.eia1.medium'']) (\<lambda>p. ret (Some p))])
       (\<lambda>predictor.
     bind (timed (None, None)
             [\<lambda>(random_input, prediction).
                bind (lib ''np.random.rand'' [''1'', ''1'', ''3'', ''3'']) (\<lambda>r.
                ret (Some r, prediction)),
              \<lambda>(random_input, prediction).
                bind (lookup ''predictor'' predictor) (\<lambda>p.
                bind (lookup ''random_input'' random_input) (\<lambda>inputs.
                bind (predict p inputs) (\<lambda>r. ret (random_input, Some r))))])
       (\<lambda>(random_input, prediction).
     bind (lookup ''predictor'' predictor) (\<lambda>predictor.
     delete_endpoint predictor)))))))"

subsection \<open>Neo compilation of the distributed MNIST model\<close>

text \<open>\<^verbatim>\<open>output_path = '/'.join(mnist_estimator.output_path.split('/')[:-1])\<close>\<close>

definition parent_uri :: "string \<Rightarrow> string" where
  "parent_uri uri = join_with ''/'' (butlast (split_on (CHR ''/'') uri))"

text \<open>The ten test images sent to an endpoint, one request each.\<close>

definition predict_test_images :: "nat \<Rightarrow> string \<Rightarrow> unit nb" where
  "predict_test_images predictor mnist =
     for_each [0..<10] (\<lambda>i.
       bind (predict predictor (mnist @ ''.test.images['' @ str_nat i @ '']''))
         (\<lambda>predict_response. ret ()))"

definition convert_mnist :: "unit nb" where
  "convert_mnist =
     bind (lib ''mnist.read_data_sets''
             [''data'', ''dtype=tf.uint8'', ''reshape=False'', ''validation_size=5000''])
       (\<lambda>data_sets.
     bind (repo ''utils.py'' ''convert_to'' [data_sets @ ''.train'', ''train'', ''data'']) (\<lambda>_.
     bind (repo ''utils.py'' ''convert_to'' [data_sets @ ''.validation'', ''validation'', ''data''])
       (\<lambda>_.
     bind (repo ''utils.py'' ''convert_to'' [data_sets @ ''.test'', ''test'', ''data'']) (\<lambda>_.
     ret ()))))"

definition tensorflow_distributed_mnist_neo :: "unit nb" where
  "tensorflow_distributed_mnist_neo =
     bind (sdk ''sagemaker.Session'' []) (\<lambda>sagemaker_session.
     bind (sdk ''get_execution_role'' []) (\<lambda>role.
     bind convert_mnist (\<lambda>_.
     bind (sdk ''Session.upload_data''
             [sagemaker_session, ''path=data'', ''key_prefix=data/DEMO-mnist'']) (\<lambda>inputs.
     bind (shell ''cat mnist.py'') (\<lambda>_.
     bind (sdk ''TensorFlow''
             [''entry_point=mnist.py'', ''role='' @ role, ''framework_version=1.15.3'',
              ''py_version=py3'', ''training_steps=100'', ''evaluation_steps=10'',
              ''instance_count=1'', ''instance_type=ml.c4.xlarge'']) (\<lambda>mnist_estimator.
     bind (sdk ''fit'' [mnist_estimator, inputs]) (\<lambda>_.
     bind (deploy mnist_estimator [''initial_instance_count=1'', ''instance_type=ml.m4.xlarge''])
       (\<lambda>mnist_predictor.
     bind (lib ''input_data.read_data_sets'' [''/tmp/data/'', ''one_hot=True'']) (\<lambda>mnist.
     bind (predict_test_images mnist_predictor mnist) (\<lambda>_.
     bind (sdk ''sagemaker.Session'' []) (\<lambda>session.
     bind (delete_endpoint mnist_predictor) (\<lambda>_.
     bind (sdk ''output_path'' [mnist_estimator]) (\<lambda>estimator_output_path.
     let output_path = parent_uri estimator_output_path in
     bind (sdk ''compile_model''
             [mnist_estimator, ''target_instance_family=ml_c5'', ''input_shape={data:[1, 784]}'',
              ''output_path='' @ output_path, ''framework=tensorflow'',
              ''framework_version=1.15.3'']) (\<lambda>optimized_estimator.
     bind (deploy optimized_estimator
             [''initial_instance_count=1'', ''instance_type=ml.c5.xlarge''])
       (\<lambda>optimized_predictor.
     bind (lib ''input_data.read_data_sets'' [''/tmp/data/'', ''one_hot=True'']) (\<lambda>mnist.
     bind (predict_test_images optimized_predictor mnist) (\<lambda>_.
     bind (sdk ''sagemaker.Session'' []) (\<lambda>session.
     delete_endpoint optimized_predictor))))))))))))))))))"

subsection \<open>Neo compilation for Inf1 (Studio)\<close>

text \<open>
  \<^verbatim>\<open>
  if sagemaker.__version__ >= '2':
      orig_sm_version = sagemaker.__version__
      with open('orig_sm_version.txt', "w") as f:
          f.write(orig_sm_version)
      %pip install "sagemaker>=1.14.2,<2"
  \<close>
\<close>

definition pin_sdk_version :: "unit nb" where
  "pin_sdk_version =
     bind (gets sdk_version) (\<lambda>version.
     if ''2'' \<le> version then
       bind (write_text ''orig_sm_version.txt'' version) (\<lambda>_.
       shell ''pip install sagemaker>=1.14.2,<2'')
     else ret ())"

text \<open>
  \<^verbatim>\<open>
  if os.path.exists('orig_sm_version.txt'):
      with open('orig_sm_version.txt', 'r') as f:
          orig_sm_version = f.read()
      %pip install sagemaker=={orig_sm_version}
      os.remove('orig_sm_version.txt')
  \<close>
\<close>

definition rollback_sdk_version :: "unit nb" where
  "rollback_sdk_version =
     bind (text_exists ''orig_sm_version.txt'') (\<lambda>present.
     if present then
       bind (read_text ''orig_sm_version.txt'') (\<lambda>orig_sm_version.
       bind (shell (''pip install sagemaker=='' @ orig_sm_version)) (\<lambda>_.
       remove_text ''orig_sm_version.txt''))
     else ret ())"

definition tensorflow_distributed_mnist_neo_inf1_studio :: "unit nb" where
  "tensorflow_distributed_mnist_neo_inf1_studio =
     bind pin_sdk_version (\<lambda>_.
     bind (shell ''pip install tensorflow==1.15.4'') (\<lambda>_.
     bind (sdk ''sagemaker.Session'' []) (\<lambda>sagemaker_session.
     bind (sdk ''get_execution_role'' []) (\<lambda>role.
     bind convert_mnist (\<lambda>_.
     bind (sdk ''Session.upload_data''
             [sagemaker_session, ''path=data'', ''key_prefix=data/DEMO-mnist'']) (\<lambda>inputs.
     bind (shell ''cat mnist.py'') (\<lambda>_.
     bind (sdk ''TensorFlow''
             [''entry_point=mnist.py'', ''role='' @ role, ''framework_version=1.11.0'',
              ''training_steps=100'', ''evaluation_steps=10'', ''train_instance_count=2'',
              ''train_instance_type=ml.c5.xlarge'', ''sagemaker_session='' @ sagemaker_session])
       (\<lambda>mnist_estimator.
     bind (sdk ''fit'' [mnist_estimator, inputs]) (\<lambda>_.
     bind (sdk ''output_path'' [mnist_estimator]) (\<lambda>estimator_output_path.
     let output_path = parent_uri estimator_output_path in
     bind (sdk ''compile_model''
             [mnist_estimator, ''target_instance_family=ml_inf1'', ''input_shape={data:[1, 784]}'',
              ''output_path='' @ output_path, ''framework=tensorflow'',
              ''framework_version=1.15.0'']) (\<lambda>optimized_estimator.
     bind (deploy optimized_estimator
             [''initial_instance_count=1'', ''instance_type=ml.inf1.xlarge''])
       (\<lambda>optimized_predictor.
     bind (def_fun ''numpy_bytes_serializer'') (\<lambda>_.
     bind (lib ''input_data.read_data_sets'' [''/tmp/data/'', ''one_hot=True'']) (\<lambda>mnist.
     bind (predict_test_images optimized_predictor mnist) (\<lambda>_.
     bind (delete_endpoint optimized_predictor) (\<lambda>_.
     rollback_sdk_version))))))))))))))))"

subsection \<open>The SageMaker TensorFlow Serving container\<close>

definition tensorflow_serving_container :: "unit nb" where
  "tensorflow_serving_container =
     bind (shell ''pip install -U --quiet sagemaker>=1.14.2,<2'') (\<lambda>_.
     bind (shell ''pip install -U --quiet opencv-python tensorflow-hub'') (\<lambda>_.
     bind (sdk ''get_execution_role'' []) (\<lambda>sagemaker_role.
     let model_name = ''mobilenet_v2_140_224''; export_path = ''mobilenet'' in
     bind (repo ''sample_utils.py'' ''tfhub_to_savedmodel'' [model_name, export_path])
       (\<lambda>model_path.
     bind (shell (''saved_model_cli show --all --dir '' @ model_path)) (\<lambda>_.
     let second_model_name = ''mobilenet_v2_035_224'' in
     bind (repo ''sample_utils.py'' ''tfhub_to_savedmodel'' [second_model_name, export_path])
       (\<lambda>second_model_path.
     bind (shell ''tar -C $PWD -czf mobilenet.tar.gz mobilenet/'') (\<lambda>_.
     bind (sdk ''sagemaker.session.Session'' []) (\<lambda>session.
     bind (sdk ''Session.upload_data'' [session, ''path=mobilenet.tar.gz'', ''key_prefix=model''])
       (\<lambda>model_data.
     bind (sdk ''sagemaker.tensorflow.serving.Model''
             [''model_data='' @ model_data, ''role='' @ sagemaker_role,
              ''framework_version=1.15.2'',
              ''env={SAGEMAKER_TFS_DEFAULT_MODEL_NAME: mobilenet_v2_140_224}'']) (\<lambda>model.
     bind (deploy model [''initial_instance_count=1'', ''instance_type=ml.c5.xlarge''])
       (\<lambda>predictor.
     bind (repo ''sample_utils.py'' ''image_file_to_tensor'' [''kitten.jpg'']) (\<lambda>kitten_image.
     bind (predict predictor kitten_image) (\<lambda>result.
     bind (repo ''sample_utils.py'' ''add_imagenet_labels'' [result]) (\<lambda>_.
     bind (repo ''sample_utils.py'' ''print_probabilities_and_labels'' [result]) (\<lambda>_.
     bind (sdk ''sagemaker.tensorflow.serving.Predictor''
             [''endpoint of predictor'', ''model_name=mobilenet_v2_035_224'']) (\<lambda>_.
     let predictor2 = predictor in
     bind (repo ''sample_utils.py'' ''image_file_to_tensor'' [''bee.jpg'']) (\<lambda>bee_image.
     bind (predict predictor2 bee_image) (\<lambda>result.
     bind (repo ''sample_utils.py'' ''add_imagenet_labels'' [result]) (\<lambda>_.
     bind (repo ''sample_utils.py'' ''print_probabilities_and_labels'' [result]) (\<lambda>_.
     delete_endpoint predictor))))))))))))))))))))"

subsection \<open>Model-parallel MNIST training\<close>

text \<open>
  \<^verbatim>\<open>
  all_experiment_names = [exp.experiment_name for exp in Experiment.list()]
  experiment_name = "SM-MP-DEMO"
  if experiment_name not in all_experiment_names:
      customer_churn_experiment = Experiment.create(
          experiment_name=experiment_name, sagemaker_boto_client=boto3.client("sagemaker"))
  else:
      customer_churn_experiment = Experiment.load(
          experiment_name=experiment_name, sagemaker_boto_client=boto3.client("sagemaker"))
  \<close>
  The value is \<open>customer_churn_experiment.experiment_name\<close>.
\<close>

definition experiment_setup :: "string nb" where
  "experiment_setup =
     bind experiment_list (\<lambda>all_experiment_names.
     let experiment_name = ''SM-MP-DEMO'' in
     if experiment_name \<notin> set all_experiment_names then
       bind (sdk ''boto3.client'' [''sagemaker'']) (\<lambda>client.
       experiment_create experiment_name client)
     else
       bind (sdk ''boto3.client'' [''sagemaker'']) (\<lambda>client.
       experiment_load experiment_name client))"

text \<open>
  The cell that sets \<open>role\<close> and \<open>session\<close> is a \<open>%%time\<close> cell. \<open>session\<close> is first read
  when the SageMaker session is built, \<open>role\<close> when the estimator is.
\<close>

definition smp_mnist_model_parallel :: "unit nb" where
  "smp_mnist_model_parallel =
     bind (shell ''pip install sagemaker-experiments'') (\<lambda>_.
     bind (shell ''pip install sagemaker --upgrade'') (\<lambda>_.
     bind (timed (None, None)
             [\<lambda>(role, session).
                bind (sdk ''get_execution_role'' []) (\<lambda>r. ret (Some r, session)),
              \<lambda>(role, session).
                bind (sdk ''boto3.session.Session'' []) (\<lambda>s. ret (role, Some s))])
       (\<lambda>(role, session).
     bind (shell ''cat utils/pt_mnist.py'') (\<lambda>_.
     bind (lookup ''session'' session) (\<lambda>session.
     bind (sdk ''sagemaker.session.Session'' [''boto_session='' @ session]) (\<lambda>sagemaker_session.
     let mpioptions = ''-verbose -x orte_base_help_aggregate=0 '' in
     bind experiment_setup (\<lambda>customer_churn_experiment_name.
     bind (lib ''time.gmtime'' []) (\<lambda>now.
     bind (lib ''time.strftime'' [''%Y-%m-%d-%H-%M-%S'', now]) (\<lambda>stamp.
     bind (sdk ''boto3.client'' [''sagemaker'']) (\<lambda>client.
     bind (sdk ''Trial.create''
             [''trial_name=SMD-MP-demo-'' @ stamp,
              ''experiment_name='' @ customer_churn_experiment_name,
              ''sagemaker_boto_client='' @ client]) (\<lambda>trial_name.
     bind (lookup ''role'' role) (\<lambda>role.
     bind (sdk ''PyTorch''
             [''entry_point=pt_mnist.py'', ''source_dir=utils'', ''role='' @ role,
              ''instance_type=ml.p3.16xlarge'', ''sagemaker_session='' @ sagemaker_session,
              ''framework_version=1.6.0'', ''py_version=py36'', ''instance_count=1'',
              ''smdistributed.modelparallel.enabled=True'', ''microbatches=4'',
              ''placement_strategy=spread'', ''pipeline=interleaved'', ''optimize=speed'',
              ''partitions=2'', ''ddp=True'', ''mpi.enabled=True'', ''processes_per_host=2'',
              ''custom_mpi_options='' @ mpioptions, ''base_job_name=SMD-MP-demo''])
       (\<lambda>smd_mp_estimator.
     bind (sdk ''fit''
             [smd_mp_estimator, ''ExperimentName='' @ customer_churn_experiment_name,
              ''TrialName='' @ trial_name, ''TrialComponentDisplayName=Training'']) (\<lambda>_.
     ret ()))))))))))))))"

subsection \<open>Preprocessing images for the built-in algorithms\<close>

text \<open>
  \<^verbatim>\<open>
  if pathlib.Path('pickled_data/builtin_bucket_name.pickle').exists():
      with open('pickled_data/builtin_bucket_name.pickle', 'rb') as f:
          bucket_name = pickle.load(f)
  else:
      bucket_name = f'sagemaker-builtin-ic-{str(uuid.uuid4())}'
      s3 = boto3.resource('s3')
      region = sagemaker.Session().boto_region_name
      bucket_config = {'LocationConstraint': region}
      s3.create_bucket(Bucket=bucket_name, CreateBucketConfiguration=bucket_config)
      with open('pickled_data/builtin_bucket_name.pickle', 'wb') as f:
          pickle.dump(bucket_name, f)
  \<close>
  The value is \<open>bucket_name\<close>.
\<close>

definition bucket_cell :: "string nb" where
  "bucket_cell =
     bind (pickle_exists ''pickled_data/builtin_bucket_name.pickle'') (\<lambda>present.
     if present then
       load_str_pickle ''pickled_data/builtin_bucket_name.pickle''
     else
       bind (lib ''uuid.uuid4'' []) (\<lambda>uuid.
       let bucket_name = ''sagemaker-builtin-ic-'' @ uuid in
       bind (sdk ''boto3.resource'' [''s3'']) (\<lambda>s3.
       bind (sdk ''sagemaker.Session().boto_region_name'' []) (\<lambda>region.
       bind (sdk ''create_bucket''
               [s3, ''Bucket='' @ bucket_name, ''LocationConstraint='' @ region]) (\<lambda>_.
       bind (dump_str_pickle ''pickled_data/builtin_bucket_name.pickle'' bucket_name) (\<lambda>_.
       ret bucket_name))))))"

definition preprocessing_builtin :: "unit nb" where
  "preprocessing_builtin =
     bind (load_dict_pickle ''pickled_data/category_labels.pickle'') (\<lambda>category_labels.
     bind (manual_lst (category_ids category_labels)) (\<lambda>_.
     bind (shell ''head train.lst'') (\<lambda>_.
     bind (lib ''urllib.request.urlretrieve''
             [''https://raw.githubusercontent.com/apache/incubator-mxnet/master/tools/im2rec.py'',
              ''im2rec.py'']) (\<lambda>_.
     bind (shell ''python im2rec.py --list --recursive train data_structured/train'') (\<lambda>_.
     bind (shell ''python im2rec.py --list --recursive val data_structured/val'') (\<lambda>_.
     bind (shell ''head train.lst'') (\<lambda>_.
     bind (mkdir ''data_recordio'') (\<lambda>_.
     bind (copy_text ''train.lst'' ''data_recordio'') (\<lambda>_.
     bind (copy_text ''val.lst'' ''data_recordio'') (\<lambda>_.
     bind (shell (''python im2rec.py --resize 224 --quality 90 --num-thread 16 ''
                  @ ''data_recordio/train data_structured/train'')) (\<lambda>_.
     bind (shell (''python im2rec.py --resize 224 --quality 90 --num-thread 16 ''
                  @ ''data_recordio/val data_structured/val'')) (\<lambda>_.
     bind bucket_cell (\<lambda>bucket_name.
     bind (sdk ''sagemaker.s3.S3Uploader'' []) (\<lambda>s3_uploader.
     bind (sdk ''upload''
             [s3_uploader, ''local_path=data_recordio/train.rec'',
              ''desired_s3_uri=s3://'' @ bucket_name @ ''/data/train'']) (\<lambda>data_s3_uri.
     bind (sdk ''upload''
             [s3_uploader, ''local_path=data_recordio/val.rec'',
              ''desired_s3_uri=s3://'' @ bucket_name @ ''/data/val'']) (\<lambda>data_s3_uri.
     ret ()))))))))))))))))"

subsection \<open>AutoGluon-Tabular from the AWS Marketplace\<close>

text \<open>
  \<^verbatim>\<open>
  from src.algorithm_arns import AlgorithmArnProvider
  algorithm_arn = AlgorithmArnProvider.get_algorithm_arn(region)
  \<close>
  \<open>src/algorithm_arns.py\<close> is a file of the repository; what its function returns is an
  answer of the world.
\<close>

definition get_algorithm_arn :: "string \<Rightarrow> string nb" where
  "get_algorithm_arn region =
     repo ''src/algorithm_arns.py'' ''AlgorithmArnProvider.get_algorithm_arn'' [region]"

text \<open>
  \<^verbatim>\<open>
  data = pd.read_csv(local_data_path)
  train = data.sample(frac=0.7, random_state=42)
  test = data.drop(train.index)
  label = 'y'
  y_test = test[label]
  X_test = test.drop(columns=[label])
  \<close>
\<close>

definition split_train_test ::
  "string \<Rightarrow> (frame \<times> frame \<times> frame \<times> (nat \<times> string) list \<times> frame) nb" where
  "split_train_test local_data_path =
     bind (read_csv local_data_path) (\<lambda>data.
     bind (df_sample data) (\<lambda>train.
     bind (lift (df_drop (df_index train) data)) (\<lambda>test.
     let label = ''y'' in
     bind (lift (df_column label test)) (\<lambda>y_test.
     bind (lift (df_drop_columns [label] test)) (\<lambda>X_test.
     ret (data, train, test, y_test, X_test))))))"

text \<open>
  The cells after the one that fetches the algorithm ARN. The cell that deploys is a
  \<open>%%time\<close> cell; \<open>predictor\<close> is first read by the cell that predicts on \<open>X_test\<close>.
\<close>

definition autogluon_after_arn ::
  "string \<Rightarrow> string \<Rightarrow> string \<Rightarrow> string \<Rightarrow> string \<Rightarrow> unit nb" where
  "autogluon_after_arn session bucket region role algorithm_arn =
     (let prefix = ''sagemaker/autogluon-tabular'';
          compatible_training_instance_type = ''ml.m5.4xlarge'';
          compatible_inference_instance_type = ''ml.m5.4xlarge'' in
     bind (shell ''apt-get update -y'') (\<lambda>_.
     bind (shell ''apt install unzip'') (\<lambda>_.
     bind (shell (''aws s3 cp --region '' @ region @ '' s3://sagemaker-sample-data-'' @ region
                  @ ''/autopilot/direct_marketing/bank-additional.zip .'')) (\<lambda>_.
     bind (shell ''unzip -qq -o bank-additional.zip'') (\<lambda>_.
     bind (shell ''rm bank-additional.zip'') (\<lambda>_.
     bind (split_train_test ''./bank-additional/bank-additional-full.csv'')
       (\<lambda>(data, train, test, y_test, X_test).
     bind (to_csv_file train ''train.csv'') (\<lambda>_.
     bind (sdk ''upload_data'' [session, ''train.csv'', ''key_prefix='' @ prefix @ ''/data''])
       (\<lambda>train_s3_path.
     bind (to_csv_file test ''test.csv'') (\<lambda>_.
     bind (sdk ''upload_data'' [session, ''test.csv'', ''key_prefix='' @ prefix @ ''/data''])
       (\<lambda>test_s3_path.
     bind (to_csv_file X_test ''X_test.csv'') (\<lambda>_.
     bind (sdk ''upload_data'' [session, ''X_test.csv'', ''key_prefix='' @ prefix @ ''/data''])
       (\<lambda>X_test_s3_path.
     bind (sdk ''AlgorithmEstimator''
             [''algorithm_arn='' @ algorithm_arn, ''role='' @ role, ''instance_count=1'',
              ''instance_type='' @ compatible_training_instance_type,
              ''sagemaker_session='' @ session, ''base_job_name=autogluon'',
              ''hyperparameters={init_args: {label: y}, fit_args: {presets: ''
                @ ''[optimize_for_deployment]}, feature_importance: True}'',
              ''train_volume_size=100'']) (\<lambda>algo.
     bind (sdk ''fit'' [algo, ''training='' @ train_s3_path]) (\<lambda>_.
     bind (timed None
             [\<lambda>predictor.
                bind (deploy algo
                        [''initial_instance_count=1'',
                         ''instance_type='' @ compatible_inference_instance_type,
                         ''serializer=CSVSerializer()'', ''deserializer=StringDeserializer()''])
                  (\<lambda>p. ret (Some p))])
       (\<lambda>predictor.
     bind (lookup ''predictor'' predictor) (\<lambda>predictor.
     bind (to_csv_text X_test) (\<lambda>payload.
     bind (predict predictor payload) (\<lambda>results.
     bind (to_csv_text test) (\<lambda>payload.
     bind (predict predictor payload) (\<lambda>results.
     bind (lib ''accuracy_score''
             [''y_true='' @ join_with '','' (map snd y_test), ''y_pred from '' @ results]) (\<lambda>_.
     bind (lib ''classification_report''
             [''y_true='' @ join_with '','' (map snd y_test), ''y_pred from '' @ results,
              ''digits=6'']) (\<lambda>_.
     let output_path = ''s3://'' @ bucket @ ''/'' @ prefix @ ''/output/'' in
     bind (sdk ''transformer''
             [algo, ''instance_count=1'',
              ''instance_type='' @ compatible_inference_instance_type,
              ''strategy=MultiRecord'', ''max_payload=6'', ''max_concurrent_transforms=1'',
              ''output_path='' @ output_path]) (\<lambda>transformer.
     bind (sdk ''transform''
             [transformer, test_s3_path, ''content_type=text/csv'', ''split_type=Line'']) (\<lambda>_.
     bind (sdk ''wait'' [transformer]) (\<lambda>_.
     delete_endpoint predictor))))))))))))))))))))))))))"

definition autogluon_tabular_marketplace :: "unit nb" where
  "autogluon_tabular_marketplace =
     bind (sdk ''sagemaker.Session'' []) (\<lambda>session.
     bind (sdk ''default_bucket'' [session]) (\<lambda>bucket.
     bind (sdk ''boto_region_name'' [session]) (\<lambda>region.
     bind (sdk ''get_execution_role'' []) (\<lambda>role.
     bind (get_algorithm_arn region) (\<lambda>algorithm_arn.
     autogluon_after_arn session bucket region role algorithm_arn)))))"

subsection \<open>All notebooks\<close>

definition notebooks :: "unit nb list" where
  "notebooks =
     [tensorflow_serving_pretrained_model_elastic_inference,
      tensorflow_distributed_mnist_neo,
      tensorflow_distributed_mnist_neo_inf1_studio,
      tensorflow_serving_container,
      smp_mnist_model_parallel,
      preprocessing_builtin,
      autogluon_tabular_marketplace]"

text \<open>A run of a notebook starts in a fresh kernel: nothing has been called yet.\<close>

definition run :: "unit nb \<Rightarrow> world \<Rightarrow> (exn + unit) \<times> world" where
  "run notebook w = notebook (w\<lparr>trace := []\<rparr>)"

section \<open>Properties of runs\<close>

text \<open>
  \<open>emits P m\<close>: whatever the world, the events \<open>m\<close> adds to the trace all satisfy \<open>P\<close>.
\<close>

definition emits :: "(event \<Rightarrow> bool) \<Rightarrow> 'a nb \<Rightarrow> bool" where
  "emits P m = (\<forall>w. \<exists>evs. trace (snd (m w)) = trace w @ evs \<and> list_all P evs)"

text \<open>Events that are neither a call into the repository, nor about an endpoint, nor a \<open>def\<close>.\<close>

fun plain :: "event \<Rightarrow> bool" where
  "plain (Repo _ _ _) = False"
| "plain (Predict _ _) = False"
| "plain (DeleteEndpoint _) = False"
| "plain (Deploy _ _) = False"
| "plain (Def _) = False"
| "plain _ = True"

fun is_repo :: "event \<Rightarrow> bool" where
  "is_repo (Repo _ _ _) = True"
| "is_repo _ = False"











text \<open>
  The order of the calls on an endpoint. An event is admissible after \<open>past\<close> when, for a
  \<open>Predict\<close>, its endpoint was deployed (the event at the endpoint's position is a
  \<open>Deploy\<close>) and not deleted, and for a \<open>DeleteEndpoint\<close>, its endpoint was deployed and
  was not deleted before. The strict order also wants a \<open>Predict\<close> on the endpoint before
  its \<open>DeleteEndpoint\<close>.
\<close>

definition is_deploy :: "event \<Rightarrow> bool" where
  "is_deploy ev = (case ev of Deploy _ _ \<Rightarrow> True | _ \<Rightarrow> False)"

definition is_predict :: "nat \<Rightarrow> event \<Rightarrow> bool" where
  "is_predict e ev = (case ev of Predict e' _ \<Rightarrow> e' = e | _ \<Rightarrow> False)"

definition uses_endpoint :: "event \<Rightarrow> bool" where
  "uses_endpoint ev = (case ev of Predict _ _ \<Rightarrow> True | DeleteEndpoint _ \<Rightarrow> True | _ \<Rightarrow> False)"

definition admissible :: "bool \<Rightarrow> event list \<Rightarrow> event \<Rightarrow> bool" where
  "admissible strict past ev =
     (case ev of
        Predict e _ \<Rightarrow> e < length past \<and> is_deploy (past ! e) \<and> DeleteEndpoint e \<notin> set past
      | DeleteEndpoint e \<Rightarrow> e < length past \<and> is_deploy (past ! e)
                            \<and> (list_ex (is_predict e) past \<or> \<not> strict)
                            \<and> DeleteEndpoint e \<notin> set past
      | _ \<Rightarrow> True)"

fun ordered_from :: "bool \<Rightarrow> event list \<Rightarrow> event list \<Rightarrow> bool" where
  "ordered_from b past [] = True"
| "ordered_from b past (ev # rest) = (admissible b past ev \<and> ordered_from b (past @ [ev]) rest)"

text \<open>
  Where a notebook stands with its endpoint: none in use, one deployed, one deployed and
  used. \<open>live v\<close> is where it stands after a \<open>%%time\<close> cell that was to deploy into the
  variable \<open>v\<close>.
\<close>

datatype phase = Idle | Live nat | Used nat

fun holds :: "bool \<Rightarrow> phase \<Rightarrow> event list \<Rightarrow> bool" where
  "holds b Idle t = ordered_from b [] t"
| "holds b (Live e) t =
     (ordered_from b [] t \<and> e < length t \<and> is_deploy (t ! e) \<and> DeleteEndpoint e \<notin> set t)"
| "holds b (Used e) t =
     (ordered_from b [] t \<and> e < length t \<and> is_deploy (t ! e) \<and> DeleteEndpoint e \<notin> set t
      \<and> list_ex (is_predict e) t)"

definition live :: "nat option \<Rightarrow> phase" where
  "live v = (case v of None \<Rightarrow> Idle | Some e \<Rightarrow> Live e)"

definition keeps_order :: "bool \<Rightarrow> phase \<Rightarrow> 'a nb \<Rightarrow> ('a \<Rightarrow> phase) \<Rightarrow> bool" where
  "keeps_order b s m s' =
     (\<forall>w. holds b s (trace w) \<longrightarrow>
        (case m w of
           (Inl e, w') \<Rightarrow> ordered_from b [] (trace w')
         | (Inr x, w') \<Rightarrow> holds b (s' x) (trace w')))"


text \<open>The three checkpoint helpers the model-parallel notebook's text speaks of.\<close>

definition checkpoint_helpers :: "string list" where
  "checkpoint_helpers =
     [''aws_s3_sync'', ''sync_local_checkpoints_to_s3'', ''sync_s3_checkpoints_to_local'']"

text \<open>
  A world to run examples in: an empty disk, no experiments, nothing raises, and the call
  at position \<open>n\<close> returns the string \<open>r\<close> followed by \<open>n\<close>.
\<close>

definition empty_disk :: disk where
  "empty_disk =
     \<lparr>text_files = Map.empty, str_pickles = Map.empty, dict_pickles = Map.empty,
      csv_files = Map.empty, jpg_paths = [], dirs = {}\<rparr>"

definition quiet :: world where
  "quiet =
     \<lparr>trace = [], raises = (\<lambda>_. None), returns = (\<lambda>n. ''r'' @ str_nat n),
      effect = (\<lambda>_ d. d), disk = empty_disk, experiments = [], sdk_version = ''1.72.0'',
      sampled = (\<lambda>_. []), render_csv = (\<lambda>_. [])\<rparr>"

text \<open>The only \<open>def\<close> a notebook may execute is that of \<open>numpy_bytes_serializer\<close>.\<close>

definition no_helper_def :: "event \<Rightarrow> bool" where
  "no_helper_def ev = (\<forall>name. ev = Def name \<longrightarrow> name = ''numpy_bytes_serializer'')"

text \<open>The quiet world, but the call at position 3 raises.\<close>

definition deploy_fails :: world where
  "deploy_fails = quiet\<lparr>raises := (\<lambda>n. if n = 3 then Some ''ResourceLimitExceeded'' else None)\<rparr>"

text \<open>The quiet world, but the call at position 4 raises.\<close>

definition rand_fails :: world where
  "rand_fails = quiet\<lparr>raises := (\<lambda>n. if n = 4 then Some ''ImportError'' else None)\<rparr>"


text \<open>The quiet world, but the call at position 15 raises.\<close>

definition download_fails :: world where
  "download_fails = quiet\<lparr>raises := (\<lambda>n. if n = 15 then Some ''download failed'' else None)\<rparr>"

text \<open>How many calls of an SDK function a list of events holds.\<close>

definition calls_of :: "string \<Rightarrow> event list \<Rightarrow> nat" where
  "calls_of name t = length (filter (\<lambda>ev. case ev of Sdk n _ \<Rightarrow> n = name | _ \<Rightarrow> False) t)"





text \<open>The estimator is built with the given ARN.\<close>

definition estimator_gets :: "string \<Rightarrow> event \<Rightarrow> bool" where
  "estimator_gets arn ev =
     (\<forall>args. ev = Sdk ''AlgorithmEstimator'' args \<longrightarrow> hd args = ''algorithm_arn='' @ arn)"

text \<open>The quiet world with a small CSV file in place, where \<open>sample\<close> picks rows 2 and 0 and the
  call at position 13 raises.\<close>

definition with_data :: world where
  "with_data =
     quiet\<lparr>disk := empty_disk\<lparr>csv_files :=
               [''./bank-additional/bank-additional-full.csv''
                  \<mapsto> ([''age'', ''y''], [[''30'', ''no''], [''41'', ''yes''], [''52'', ''no'']])]\<rparr>,
            sampled := (\<lambda>n. [2, 0]),
            raises := (\<lambda>n. if n = 13 then Some ''AccessDenied'' else None)\<rparr>"

text \<open>The line of the manifest for an image: its position among the images, the id of its
  category, its path.\<close>

definition lst_line :: "(string \<rightharpoonup> nat) \<Rightarrow> nat \<times> string list \<Rightarrow> string" where
  "lst_line ids x =
     zfill 10 (str_nat (fst x)) @ [CHR 0x09]
       @ (case ids (snd x ! (length (snd x) - 2)) of None \<Rightarrow> [] | Some category \<Rightarrow> str_nat category)
       @ [CHR 0x09] @ as_posix (snd x) @ [CHR 0x0A]"

text \<open>The manifest an image goes to.\<close>

definition lst_name :: "string list \<Rightarrow> string" where
  "lst_name p = p ! (length p - 3) @ ''.lst''"

text \<open>The lines of the enumerated images that go to the manifest of a given name, in order.\<close>

definition lst_lines :: "(string \<rightharpoonup> nat) \<Rightarrow> (nat \<times> string list) list \<Rightarrow> string \<Rightarrow> string" where
  "lst_lines ids xs fname = concat (map (lst_line ids) (filter (\<lambda>x. lst_name (snd x) = fname) xs))"

text \<open>
  The quiet world with three images on the disk, in an order in which \<open>rglob\<close> can yield
  them (it walks depth first, so the images of one directory follow each other).
\<close>

definition pictures :: world where
  "pictures =
     quiet\<lparr>disk := empty_disk\<lparr>jpg_paths :=
       [[''data_structured'', ''train'', ''cat'', ''a.jpg''],
        [''data_structured'', ''train'', ''dog'', ''c.jpg''],
        [''data_structured'', ''val'', ''dog'', ''b.jpg'']]\<rparr>\<rparr>"

section \<open>Rules\<close>

subsection \<open>Which events a program can add\<close>

lemma emitsI:
  assumes "\<And>w. \<exists>evs. trace (snd (m w)) = trace w @ evs \<and> list_all P evs"
  shows "emits P m"
  using assms by (simp add: emits_def)

lemma emits_ret: "emits P (ret x)"
  by (simp add: emits_def ret_def)

lemma emits_raise: "emits P (raise e)"
  by (simp add: emits_def raise_def)

lemma emits_lift: "emits P (lift r)"
  by (simp add: emits_def lift_def)

lemma emits_gets: "emits P (gets f)"
  by (simp add: emits_def gets_def)

lemma emits_update_disk: "emits P (update_disk f)"
  by (simp add: emits_def update_disk_def)

lemma emits_bind:
  assumes "emits P m" "\<And>x. emits P (f x)"
  shows "emits P (bind m f)"
proof (rule emitsI)
  fix w
  obtain r w1 where m: "m w = (r, w1)" by (cases "m w")
  from assms(1) obtain evs1 where e1: "trace w1 = trace w @ evs1" "list_all P evs1"
    using m unfolding emits_def by (metis snd_conv)
  show "\<exists>evs. trace (snd (bind m f w)) = trace w @ evs \<and> list_all P evs"
  proof (cases r)
    case (Inl e)
    then show ?thesis using m e1 by (auto simp: bind_def)
  next
    case (Inr x)
    from assms(2) [of x] obtain evs2 where
      e2: "trace (snd (f x w1)) = trace w1 @ evs2" "list_all P evs2"
      unfolding emits_def by blast
    have "trace (snd (bind m f w)) = trace w @ (evs1 @ evs2)"
      using m Inr e1 e2 by (simp add: bind_def)
    moreover have "list_all P (evs1 @ evs2)" using e1 e2 by simp
    ultimately show ?thesis by blast
  qed
qed

lemma emits_if:
  assumes "emits P a" "emits P b"
  shows "emits P (if c then a else b)"
  using assms by simp

lemma emits_case_option:
  assumes "emits P a" "\<And>x. emits P (b x)"
  shows "emits P (case c of None \<Rightarrow> a | Some x \<Rightarrow> b x)"
  using assms by (cases c) simp_all

lemma emits_case_prod:
  assumes "\<And>a b. emits P (f a b)"
  shows "emits P (case p of (a, b) \<Rightarrow> f a b)"
  using assms by (cases p) simp

lemma emits_for_each:
  assumes "\<And>x. emits P (body x)"
  shows "emits P (for_each xs body)"
  by (induction xs) (auto intro: emits_ret emits_bind assms)

lemma emits_ext:
  assumes "P ev" "\<And>e. P (Raised e)"
  shows "emits P (ext ev mk)"
  using assms by (auto simp: emits_def ext_def Let_def split: option.splits)

lemma emits_sdk:
  assumes "P (Sdk name args)" "\<And>e. P (Raised e)"
  shows "emits P (sdk name args)"
  unfolding sdk_def using assms by (rule emits_ext)

lemma emits_lib:
  assumes "P (Lib name args)" "\<And>e. P (Raised e)"
  shows "emits P (lib name args)"
  unfolding lib_def using assms by (rule emits_ext)

lemma emits_repo:
  assumes "P (Repo file name args)" "\<And>e. P (Raised e)"
  shows "emits P (repo file name args)"
  unfolding repo_def using assms by (rule emits_ext)

lemma emits_shell:
  assumes "P (Shell cmd)"
  shows "emits P (shell cmd)"
  using assms by (simp add: emits_def shell_def)

lemma emits_def_fun:
  assumes "P (Def name)"
  shows "emits P (def_fun name)"
  using assms by (simp add: emits_def def_fun_def)

lemma emits_sdk_raise:
  assumes "\<And>e. P (Raised e)"
  shows "emits P (sdk_raise msg)"
  using assms by (simp add: emits_def sdk_raise_def)

lemma emits_add_experiment: "emits P (add_experiment name)"
  by (simp add: emits_def add_experiment_def)

lemma emits_deploy:
  assumes "P (Deploy model args)" "\<And>e. P (Raised e)"
  shows "emits P (deploy model args)"
proof -
  have "emits P (bind (ext (Deploy model args) SdkError) (\<lambda>_. ret n))" for n :: nat
    by (intro emits_bind emits_ext emits_ret assms)
  then show ?thesis
    unfolding emits_def deploy_def by blast
qed

lemma emits_predict:
  assumes "P (Predict endpoint payload)" "\<And>e. P (Raised e)"
  shows "emits P (predict endpoint payload)"
  unfolding predict_def using assms by (rule emits_ext)

lemma emits_delete_endpoint:
  assumes "P (DeleteEndpoint endpoint)" "\<And>e. P (Raised e)"
  shows "emits P (delete_endpoint endpoint)"
  unfolding delete_endpoint_def by (intro emits_bind emits_ext emits_ret assms)

lemma emits_lookup: "emits P (lookup name v)"
  by (cases v) (simp_all add: lookup_def emits_ret emits_raise)

lemma emits_timed_Nil: "emits P (timed vars [])"
  by (simp add: emits_def)

lemma emits_timed_Cons:
  assumes "\<And>vars. emits P (stmt vars)" "\<And>vars. emits P (timed vars rest)" "\<And>e. P (Shown e)"
  shows "emits P (timed vars (stmt # rest))"
proof (rule emitsI)
  fix w
  obtain r w1 where m: "stmt vars w = (r, w1)" by (cases "stmt vars w")
  from assms(1) [of vars] obtain evs1 where e1: "trace w1 = trace w @ evs1" "list_all P evs1"
    using m unfolding emits_def by (metis snd_conv)
  show "\<exists>evs. trace (snd (timed vars (stmt # rest) w)) = trace w @ evs \<and> list_all P evs"
  proof (cases r)
    case (Inl e)
    then have "trace (snd (timed vars (stmt # rest) w)) = trace w @ (evs1 @ [Shown e])"
      using m e1 by simp
    moreover have "list_all P (evs1 @ [Shown e])" using e1 assms(3) by simp
    ultimately show ?thesis by blast
  next
    case (Inr x)
    from assms(2) [of x] obtain evs2 where
      e2: "trace (snd (timed x rest w1)) = trace w1 @ evs2" "list_all P evs2"
      unfolding emits_def by blast
    have "trace (snd (timed vars (stmt # rest) w)) = trace w @ (evs1 @ evs2)"
      using m Inr e1 e2 by simp
    moreover have "list_all P (evs1 @ evs2)" using e1 e2 by simp
    ultimately show ?thesis by blast
  qed
qed

lemmas emits_basic =
  emits_ret emits_raise emits_lift emits_gets emits_update_disk emits_bind emits_if
  emits_case_option emits_case_prod emits_for_each emits_sdk emits_lib emits_repo emits_shell
  emits_def_fun emits_sdk_raise emits_add_experiment emits_deploy emits_predict emits_delete_endpoint
  emits_lookup emits_timed_Nil emits_timed_Cons

lemmas file_defs =
  text_exists_def read_text_def write_text_def append_text_def remove_text_def copy_text_def
  pickle_exists_def load_str_pickle_def dump_str_pickle_def load_dict_pickle_def
  read_csv_def df_sample_def to_csv_file_def to_csv_text_def in_directory_def mkdir_def

lemmas cell_defs =
  experiment_list_def experiment_create_def experiment_load_def experiment_setup_def
  manual_lst_def predict_test_images_def convert_mnist_def pin_sdk_version_def
  rollback_sdk_version_def bucket_cell_def get_algorithm_arn_def split_train_test_def

subsection \<open>SDK exceptions reach the top\<close>































subsection \<open>Calls on an endpoint stay in order\<close>

lemma ordered_from_snoc:
  "ordered_from strict past (xs @ [ev]) = (ordered_from strict past xs \<and> admissible strict (past @ xs) ev)"
  by (induction xs arbitrary: past) auto

lemma ordered_from_append:
  "ordered_from strict past (xs @ ys)
     = (ordered_from strict past xs \<and> ordered_from strict (past @ xs) ys)"
  by (induction xs arbitrary: past) auto

lemma ordered_from_snoc2:
  "ordered_from strict past (xs @ [ev1, ev2]) =
     (ordered_from strict past xs \<and> admissible strict (past @ xs) ev1 \<and> admissible strict (past @ xs @ [ev1]) ev2)"
  using ordered_from_snoc [of strict past "xs @ [ev1]" ev2] ordered_from_snoc [of strict past xs ev1] by simp

lemma admissible_Raised [simp]: "admissible strict past (Raised x)"
  by (simp add: admissible_def)

lemma admissible_Shown [simp]: "admissible strict past (Shown x)"
  by (simp add: admissible_def)

lemma ordered_from_bound:
  assumes "ordered_from strict past xs" "DeleteEndpoint e \<in> set xs"
  shows "e < length (past @ xs)"
  using assms
proof (induction xs rule: rev_induct)
  case Nil
  then show ?case by simp
next
  case (snoc ev xs)
  show ?case
  proof (cases "ev = DeleteEndpoint e")
    case True
    then show ?thesis using snoc.prems(1) by (simp add: ordered_from_snoc admissible_def)
  next
    case False
    then have "DeleteEndpoint e \<in> set xs" using snoc.prems(2) by simp
    moreover have "ordered_from strict past xs" using snoc.prems(1) by (simp add: ordered_from_snoc)
    ultimately have "e < length (past @ xs)" by (rule snoc.IH [rotated])
    then show ?thesis by simp
  qed
qed

lemma fresh_endpoint:
  assumes "ordered_from strict [] t"
  shows "DeleteEndpoint (length t) \<notin> set t"
  using ordered_from_bound [OF assms, of "length t"] by auto

lemma holds_ordered: "holds strict s t \<Longrightarrow> ordered_from strict [] t"
  by (cases s) auto

lemma holds_snoc:
  assumes "holds strict s t" "\<not> uses_endpoint ev"
  shows "holds strict s (t @ [ev])"
  using assms
  by (cases s; cases ev) (auto simp: ordered_from_snoc admissible_def uses_endpoint_def nth_append)

lemma holds_append:
  assumes "holds strict s t" "list_all (\<lambda>ev. \<not> uses_endpoint ev) evs"
  shows "holds strict s (t @ evs)"
  using assms
proof (induction evs rule: rev_induct)
  case Nil
  then show ?case by simp
next
  case (snoc ev evs)
  then have "holds strict s ((t @ evs) @ [ev])" by (intro holds_snoc) auto
  then show ?case by simp
qed

lemma keeps_order_emits:
  assumes "emits (\<lambda>ev. \<not> uses_endpoint ev) m"
  shows "keeps_order strict s m (\<lambda>_. s)"
  unfolding keeps_order_def
proof (intro allI impI)
  fix w :: world assume h: "holds strict s (trace w)"
  obtain evs where "trace (snd (m w)) = trace w @ evs" "list_all (\<lambda>ev. \<not> uses_endpoint ev) evs"
    using assms unfolding emits_def by blast
  then have "holds strict s (trace (snd (m w)))" using holds_append [OF h] by simp
  then show "case m w of (Inl e, w') \<Rightarrow> ordered_from strict [] (trace w')
                       | (Inr x, w') \<Rightarrow> holds strict s (trace w')"
    by (auto split: prod.splits sum.splits dest: holds_ordered)
qed

lemma ko_bind:
  assumes "keeps_order strict s m s1" "\<And>x. keeps_order strict (s1 x) (f x) s2"
  shows "keeps_order strict s (bind m f) s2"
  unfolding keeps_order_def
proof (intro allI impI)
  fix w :: world assume h: "holds strict s (trace w)"
  obtain r w1 where m: "m w = (r, w1)" by (cases "m w")
  show "case bind m f w of (Inl e, w') \<Rightarrow> ordered_from strict [] (trace w')
                         | (Inr x, w') \<Rightarrow> holds strict (s2 x) (trace w')"
  proof (cases r)
    case (Inl e)
    then show ?thesis using assms(1) h m by (auto simp: keeps_order_def bind_def)
  next
    case (Inr x)
    then have "holds strict (s1 x) (trace w1)" using assms(1) h m by (auto simp: keeps_order_def)
    then show ?thesis using assms(2) [of x] m Inr by (auto simp: keeps_order_def bind_def)
  qed
qed

lemma ko_ret: "keeps_order strict s (ret x) (\<lambda>_. s)"
  by (intro keeps_order_emits emits_basic)

lemma ko_raise: "keeps_order strict s (raise e) s'"
  by (auto simp: keeps_order_def raise_def dest: holds_ordered)

lemma ko_lift: "keeps_order strict s (lift r) (\<lambda>_. s)"
  by (intro keeps_order_emits emits_basic)

lemma ko_gets: "keeps_order strict s (gets f) (\<lambda>_. s)"
  by (intro keeps_order_emits emits_basic)

lemma ko_update_disk: "keeps_order strict s (update_disk f) (\<lambda>_. s)"
  by (intro keeps_order_emits emits_basic)

lemma ko_sdk: "keeps_order strict s (sdk name args) (\<lambda>_. s)"
  by (intro keeps_order_emits emits_basic) (simp_all add: uses_endpoint_def)

lemma ko_lib: "keeps_order strict s (lib name args) (\<lambda>_. s)"
  by (intro keeps_order_emits emits_basic) (simp_all add: uses_endpoint_def)

lemma ko_repo: "keeps_order strict s (repo file name args) (\<lambda>_. s)"
  by (intro keeps_order_emits emits_basic) (simp_all add: uses_endpoint_def)

lemma ko_shell: "keeps_order strict s (shell cmd) (\<lambda>_. s)"
  by (intro keeps_order_emits emits_basic) (simp_all add: uses_endpoint_def)

lemma ko_def_fun: "keeps_order strict s (def_fun name) (\<lambda>_. s)"
  by (intro keeps_order_emits emits_basic) (simp_all add: uses_endpoint_def)

lemma ko_if:
  assumes "keeps_order strict s a s'" "keeps_order strict s b s'"
  shows "keeps_order strict s (if c then a else b) s'"
  using assms by simp

lemma ko_case_option:
  assumes "keeps_order strict s a s'" "\<And>x. keeps_order strict s (b x) s'"
  shows "keeps_order strict s (case c of None \<Rightarrow> a | Some x \<Rightarrow> b x) s'"
  using assms by (cases c) simp_all

lemma ko_case_prod:
  assumes "\<And>a b. keeps_order strict s (f a b) s'"
  shows "keeps_order strict s (case p of (a, b) \<Rightarrow> f a b) s'"
  using assms by (cases p) simp

lemma ko_for_each_Nil: "keeps_order strict s (for_each [] body) (\<lambda>_. s)"
  by (simp add: ko_ret)

lemma ko_for_each_Cons:
  assumes "keeps_order strict s (body x) (\<lambda>_. s1)" "keeps_order strict s1 (for_each xs body) s2"
  shows "keeps_order strict s (for_each (x # xs) body) s2"
  using assms by (auto intro: ko_bind)

lemma ko_deploy: "keeps_order strict Idle (deploy model args) Live"
  unfolding keeps_order_def
proof (intro allI impI)
  fix w :: world assume h: "holds strict Idle (trace w)"
  show "case deploy model args w of (Inl e, w') \<Rightarrow> ordered_from strict [] (trace w')
                                   | (Inr x, w') \<Rightarrow> holds strict (Live x) (trace w')"
    using h fresh_endpoint [of strict "trace w"]
    by (auto simp: deploy_def bind_def ext_def ret_def Let_def is_deploy_def ordered_from_snoc
                   ordered_from_snoc2 admissible_def
             split: option.splits)
qed

lemma ko_predict_live: "keeps_order strict (Live e) (predict e payload) (\<lambda>_. Used e)"
  unfolding keeps_order_def
  by (auto simp: predict_def ext_def Let_def ordered_from_snoc ordered_from_snoc2 admissible_def
                 nth_append is_predict_def
           split: option.splits)

lemma ko_predict_used: "keeps_order strict (Used e) (predict e payload) (\<lambda>_. Used e)"
  unfolding keeps_order_def
  by (auto simp: predict_def ext_def Let_def ordered_from_snoc ordered_from_snoc2 admissible_def
                 nth_append is_predict_def
           split: option.splits)

lemma ko_delete_endpoint: "keeps_order strict (Used e) (delete_endpoint e) (\<lambda>_. Idle)"
  unfolding keeps_order_def
  by (auto simp: delete_endpoint_def bind_def ret_def ext_def Let_def ordered_from_snoc
                 ordered_from_snoc2 admissible_def nth_append
           split: option.splits)

lemma ko_delete_endpoint_live: "keeps_order False (Live e) (delete_endpoint e) (\<lambda>_. Idle)"
  unfolding keeps_order_def
  by (auto simp: delete_endpoint_def bind_def ret_def ext_def Let_def ordered_from_snoc
                 ordered_from_snoc2 admissible_def nth_append
           split: option.splits)

lemma ko_lookup_live: "keeps_order strict (live v) (lookup name v) Live"
  by (cases v) (auto simp: keeps_order_def lookup_def live_def raise_def ret_def)

lemma ko_lookup: "keeps_order strict s (lookup name v) (\<lambda>_. s)"
  by (intro keeps_order_emits emits_basic)

lemma holds_Shown:
  assumes "ordered_from strict [] t"
  shows "ordered_from strict [] (t @ [Shown e])"
  using assms by (simp add: ordered_from_snoc admissible_def)

lemma ko_timed_deploy:
  "keeps_order strict Idle (timed None [\<lambda>v. bind (deploy model args) (\<lambda>p. ret (Some p))]) live"
  unfolding keeps_order_def
proof (intro allI impI)
  fix w :: world assume h: "holds strict Idle (trace w)"
  have d: "case deploy model args w of (Inl e, w') \<Rightarrow> ordered_from strict [] (trace w')
                                   | (Inr x, w') \<Rightarrow> holds strict (Live x) (trace w')"
    using ko_deploy [of strict model args] h unfolding keeps_order_def by (simp only:)
  obtain r w1 where m: "deploy model args w = (r, w1)" by (cases "deploy model args w")
  show "case timed None [\<lambda>v. bind (deploy model args) (\<lambda>p. ret (Some p))] w of
          (Inl e, w') \<Rightarrow> ordered_from strict [] (trace w')
        | (Inr x, w') \<Rightarrow> holds strict (live x) (trace w')"
  proof (cases r)
    case (Inl e)
    then show ?thesis using d m by (simp add: bind_def live_def holds_Shown)
  next
    case (Inr x)
    then show ?thesis using d m by (simp add: bind_def ret_def live_def)
  qed
qed

lemma ko_timed_plain:
  assumes "emits (\<lambda>ev. \<not> uses_endpoint ev) (timed vars stmts)"
  shows "keeps_order strict s (timed vars stmts) (\<lambda>_. s)"
  using assms by (rule keeps_order_emits)

lemmas ko_basic =
  ko_bind ko_ret ko_raise ko_lift ko_gets ko_update_disk ko_sdk ko_lib ko_repo ko_shell
  ko_def_fun ko_if ko_case_option ko_case_prod ko_for_each_Nil ko_for_each_Cons ko_deploy
  ko_predict_live ko_predict_used ko_delete_endpoint ko_timed_deploy ko_lookup_live ko_lookup

lemma upt10: "[0..<10] = [0, 1, 2, 3, 4, 5, 6, 7, 8, 9]"
  by (simp add: upt_rec)

lemma emits_mono:
  assumes "emits P m" "\<And>ev. P ev \<Longrightarrow> Q ev"
  shows "emits Q m"
  using assms unfolding emits_def by (metis (mono_tags, lifting) list_all_iff)

subsection \<open>SDK exceptions in \<open>%%time\<close> cells\<close>







lemma nth_append_right: "length xs \<le> i \<Longrightarrow> (xs @ ys) ! i = ys ! (i - length xs)"
  by (simp add: nth_append)
























subsection \<open>Programs that do not read the disk\<close>




























section \<open>The notebooks, one by one\<close>

lemma no_helper_def_simps [simp]:
  "no_helper_def (Sdk n a)" "no_helper_def (Deploy m a)" "no_helper_def (Predict e p)"
  "no_helper_def (DeleteEndpoint e)" "no_helper_def (Lib n a)" "no_helper_def (Repo f n a)"
  "no_helper_def (Shell c)" "no_helper_def (Raised x)" "no_helper_def (Shown x)"
  "no_helper_def (Def name) = (name = ''numpy_bytes_serializer'')"
  by (simp_all add: no_helper_def_def)

lemma emits_elastic_inference:
  "emits (\<lambda>ev. \<not> is_repo ev \<and> no_helper_def ev) tensorflow_serving_pretrained_model_elastic_inference"
  unfolding tensorflow_serving_pretrained_model_elastic_inference_def cell_defs file_defs Let_def
  by (intro emits_basic; simp)

lemma emits_neo: "emits no_helper_def tensorflow_distributed_mnist_neo"
  unfolding tensorflow_distributed_mnist_neo_def cell_defs file_defs Let_def
  by (intro emits_basic; simp)

lemma emits_inf1: "emits no_helper_def tensorflow_distributed_mnist_neo_inf1_studio"
  unfolding tensorflow_distributed_mnist_neo_inf1_studio_def cell_defs file_defs Let_def
  by (intro emits_basic; simp)

lemma emits_serving_container: "emits no_helper_def tensorflow_serving_container"
  unfolding tensorflow_serving_container_def cell_defs file_defs Let_def
  by (intro emits_basic; simp)

lemma emits_model_parallel: "emits plain smp_mnist_model_parallel"
  unfolding smp_mnist_model_parallel_def cell_defs file_defs Let_def
  by (intro emits_basic; simp)

lemma emits_preprocessing: "emits plain preprocessing_builtin"
  unfolding preprocessing_builtin_def cell_defs file_defs Let_def
  by (intro emits_basic; simp)

lemma emits_autogluon: "emits no_helper_def autogluon_tabular_marketplace"
  unfolding autogluon_tabular_marketplace_def autogluon_after_arn_def cell_defs file_defs Let_def
  by (intro emits_basic; simp)

lemma plain_no_helper_def: "plain ev \<Longrightarrow> no_helper_def ev"
  by (cases ev) simp_all

lemma plain_no_repo: "plain ev \<Longrightarrow> \<not> is_repo ev"
  by (cases ev) simp_all

lemma plain_no_endpoint: "plain ev \<Longrightarrow> \<not> uses_endpoint ev"
  by (cases ev) (simp_all add: uses_endpoint_def)

lemma notebooks_emit:
  assumes "notebook \<in> set notebooks"
  shows "emits no_helper_def notebook"
  using assms emits_elastic_inference emits_neo emits_inf1 emits_serving_container
    emits_model_parallel emits_preprocessing emits_autogluon
  by (auto simp: notebooks_def intro: emits_mono plain_no_helper_def)





lemma ordered_neo: "keeps_order True Idle tensorflow_distributed_mnist_neo (\<lambda>_. Idle)"
  unfolding tensorflow_distributed_mnist_neo_def cell_defs file_defs Let_def upt10
  by (rule ko_basic)+

lemma ordered_inf1: "keeps_order True Idle tensorflow_distributed_mnist_neo_inf1_studio (\<lambda>_. Idle)"
  unfolding tensorflow_distributed_mnist_neo_inf1_studio_def cell_defs file_defs Let_def upt10
  by (rule ko_basic)+

lemma ordered_serving_container: "keeps_order True Idle tensorflow_serving_container (\<lambda>_. Idle)"
  unfolding tensorflow_serving_container_def cell_defs file_defs Let_def upt10
  by (rule ko_basic)+

lemma ordered_autogluon: "keeps_order True Idle autogluon_tabular_marketplace (\<lambda>_. Idle)"
  unfolding autogluon_tabular_marketplace_def autogluon_after_arn_def cell_defs file_defs Let_def upt10
  by (rule ko_basic)+

lemma ordered_model_parallel: "keeps_order True Idle smp_mnist_model_parallel (\<lambda>_. Idle)"
  by (rule keeps_order_emits [OF emits_mono [OF emits_model_parallel plain_no_endpoint]])

lemma ordered_preprocessing: "keeps_order True Idle preprocessing_builtin (\<lambda>_. Idle)"
  by (rule keeps_order_emits [OF emits_mono [OF emits_preprocessing plain_no_endpoint]])

text \<open>
  The cell of the Elastic Inference notebook that predicts, a \<open>%%time\<close> cell: whatever
  happens in it, the endpoint is as it was.
\<close>

lemma ordered_predict_cell:
  "keeps_order False (live predictor)
     (timed (None, None)
        [\<lambda>(random_input, prediction).
           bind (lib ''np.random.rand'' [''1'', ''1'', ''3'', ''3'']) (\<lambda>r.
           ret (Some r, prediction)),
         \<lambda>(random_input, prediction).
           bind (lookup ''predictor'' predictor) (\<lambda>p.
           bind (lookup ''random_input'' random_input) (\<lambda>inputs.
           bind (predict p inputs) (\<lambda>r. ret (random_input, Some r))))])
     (\<lambda>_. live predictor)"
  unfolding keeps_order_def
  by (cases predictor)
     (auto simp: live_def lookup_def bind_def ret_def raise_def lib_def predict_def ext_def Let_def
                 ordered_from_append admissible_def nth_append is_deploy_def
           split: option.splits)

lemma ordered_elastic_inference:
  "keeps_order False Idle tensorflow_serving_pretrained_model_elastic_inference (\<lambda>_. Idle)"
  unfolding tensorflow_serving_pretrained_model_elastic_inference_def
  apply (rule ko_bind)
   apply (rule ko_timed_plain)
   apply (intro emits_basic; simp add: uses_endpoint_def)
  apply (rule ko_case_prod)
  apply (rule ko_basic)+
   apply (rule ordered_predict_cell)
  apply (rule ko_case_prod)
  apply (rule ko_bind)
   apply (rule ko_lookup_live)
  apply (rule ko_delete_endpoint_live)
  done









section \<open>Every run of every notebook\<close>

lemma run_trace:
  assumes "emits P notebook"
  shows "list_all P (trace (snd (run notebook w)))"
  using assms unfolding emits_def run_def
  by (metis append_Nil select_convs(1) surjective update_convs(1))

lemma ordered_from_iff:
  "ordered_from strict past xs = (\<forall>i < length xs. admissible strict (past @ take i xs) (xs ! i))"
proof (induction xs rule: rev_induct)
  case Nil
  then show ?case by simp
next
  case (snoc ev xs)
  show ?case
    unfolding ordered_from_snoc snoc.IH
    by (auto simp: less_Suc_eq nth_append)
qed

lemma run_ordered:
  assumes "keeps_order strict Idle notebook (\<lambda>_. Idle)"
  shows "ordered_from strict [] (trace (snd (run notebook w)))"
proof -
  have "holds strict Idle (trace (w\<lparr>trace := []\<rparr>))" by simp
  then show ?thesis
    using assms unfolding keeps_order_def run_def
    by (fastforce split: prod.splits sum.splits)
qed

lemma ordered_predict:
  assumes "ordered_from strict [] t" "i < length t" "t ! i = Predict e payload"
  shows "e < i \<and> is_deploy (t ! e) \<and> (\<forall>j < i. t ! j \<noteq> DeleteEndpoint e)"
proof -
  have a: "admissible strict (take i t) (Predict e payload)"
    using assms by (auto simp: ordered_from_iff)
  then have "e < i" using assms(2) by (simp add: admissible_def)
  moreover have "is_deploy (t ! e)" using a assms(2) by (auto simp: admissible_def)
  moreover have "t ! j \<noteq> DeleteEndpoint e" if "j < i" for j
  proof
    assume "t ! j = DeleteEndpoint e"
    then have "DeleteEndpoint e \<in> set (take i t)"
      using that assms(2) by (metis in_set_conv_nth length_take min.absorb2 less_imp_le nth_take)
    then show False using a by (simp add: admissible_def)
  qed
  ultimately show ?thesis by blast
qed

lemma ordered_delete:
  assumes "ordered_from strict [] t" "i < length t" "t ! i = DeleteEndpoint e"
  shows "e < i \<and> is_deploy (t ! e) \<and> (\<forall>j < i. t ! j \<noteq> DeleteEndpoint e)
         \<and> (\<forall>j. i < j \<and> j < length t \<longrightarrow> \<not> is_predict e (t ! j))"
proof -
  have a: "admissible strict (take i t) (DeleteEndpoint e)"
    using assms by (auto simp: ordered_from_iff)
  then have "e < i" using assms(2) by (simp add: admissible_def)
  moreover have "is_deploy (t ! e)" using a assms(2) by (auto simp: admissible_def)
  moreover have "t ! j \<noteq> DeleteEndpoint e" if "j < i" for j
  proof
    assume "t ! j = DeleteEndpoint e"
    then have "DeleteEndpoint e \<in> set (take i t)"
      using that assms(2) by (metis in_set_conv_nth length_take min.absorb2 less_imp_le nth_take)
    then show False using a by (simp add: admissible_def)
  qed
  moreover have "\<not> is_predict e (t ! j)" if "i < j" "j < length t" for j
  proof
    assume "is_predict e (t ! j)"
    then obtain payload where "t ! j = Predict e payload"
      by (cases "t ! j") (auto simp: is_predict_def)
    from ordered_predict [OF assms(1) that(2) this] that(1) assms(3) show False by blast
  qed
  ultimately show ?thesis by blast
qed

lemma ordered_delete_strict:
  assumes "ordered_from True [] t" "i < length t" "t ! i = DeleteEndpoint e"
  shows "\<exists>j < i. is_predict e (t ! j)"
proof -
  have "admissible True (take i t) (DeleteEndpoint e)"
    using assms by (auto simp: ordered_from_iff)
  then have "list_ex (is_predict e) (take i t)" by (simp add: admissible_def)
  then obtain ev where "ev \<in> set (take i t)" "is_predict e ev" by (auto simp: list_ex_iff)
  then obtain j where "j < length (take i t)" "take i t ! j = ev" by (auto simp: in_set_conv_nth)
  then show ?thesis using \<open>is_predict e ev\<close> by auto
qed

lemma ordered_weaken:
  assumes "ordered_from True past xs"
  shows "ordered_from False past xs"
  using assms
  by (induction xs arbitrary: past) (auto simp: admissible_def split: event.splits)

lemma notebooks_ordered_strict:
  assumes "notebook \<in> {tensorflow_distributed_mnist_neo, tensorflow_distributed_mnist_neo_inf1_studio,
                      tensorflow_serving_container, smp_mnist_model_parallel, preprocessing_builtin,
                      autogluon_tabular_marketplace}"
  shows "ordered_from True [] (trace (snd (run notebook w)))"
  using assms ordered_neo ordered_inf1 ordered_serving_container ordered_model_parallel
    ordered_preprocessing ordered_autogluon
  by (auto intro: run_ordered)

lemma notebooks_ordered:
  assumes "notebook \<in> set notebooks"
  shows "ordered_from False [] (trace (snd (run notebook w)))"
proof (cases "notebook = tensorflow_serving_pretrained_model_elastic_inference")
  case True
  then show ?thesis using ordered_elastic_inference by (auto intro: run_ordered)
next
  case False
  then have "notebook \<in> {tensorflow_distributed_mnist_neo, tensorflow_distributed_mnist_neo_inf1_studio,
                      tensorflow_serving_container, smp_mnist_model_parallel, preprocessing_builtin,
                      autogluon_tabular_marketplace}"
    using assms by (auto simp: notebooks_def)
  then show ?thesis by (intro ordered_weaken notebooks_ordered_strict)
qed

text \<open>
  C4, amended. In every run of every notebook, a \<open>predict\<close> call comes after the \<open>deploy\<close>
  that created its endpoint and before any \<open>delete_endpoint\<close> of that endpoint, and a
  \<open>delete_endpoint\<close> call comes after the \<open>deploy\<close> that created its endpoint, is the only
  one on that endpoint so far, and no \<open>predict\<close> on that endpoint comes after it. In every
  notebook but the Elastic Inference one, whose \<open>predict\<close> is in a \<open>%%time\<close> cell, a
  \<open>delete_endpoint\<close> call also comes after at least one \<open>predict\<close> on its endpoint.
\<close>

theorem endpoint_calls_in_order:
  "(\<forall>notebook \<in> set notebooks. \<forall>w i e.
     i < length (trace (snd (run notebook w))) \<longrightarrow>
       ((\<forall>payload. trace (snd (run notebook w)) ! i = Predict e payload \<longrightarrow>
           e < i \<and> is_deploy (trace (snd (run notebook w)) ! e)
           \<and> (\<forall>j < i. trace (snd (run notebook w)) ! j \<noteq> DeleteEndpoint e))
      \<and> (trace (snd (run notebook w)) ! i = DeleteEndpoint e \<longrightarrow>
           e < i \<and> is_deploy (trace (snd (run notebook w)) ! e)
           \<and> (\<forall>j < i. trace (snd (run notebook w)) ! j \<noteq> DeleteEndpoint e)
           \<and> (\<forall>j. i < j \<and> j < length (trace (snd (run notebook w))) \<longrightarrow>
                  \<not> is_predict e (trace (snd (run notebook w)) ! j)))))
   \<and> (\<forall>notebook \<in> {tensorflow_distributed_mnist_neo, tensorflow_distributed_mnist_neo_inf1_studio,
                     tensorflow_serving_container, smp_mnist_model_parallel, preprocessing_builtin,
                     autogluon_tabular_marketplace}.
        \<forall>w i e. i < length (trace (snd (run notebook w)))
                \<and> trace (snd (run notebook w)) ! i = DeleteEndpoint e
          \<longrightarrow> (\<exists>j < i. is_predict e (trace (snd (run notebook w)) ! j)))"
proof (intro conjI ballI allI impI)
  fix notebook w i e payload
  assume nb: "notebook \<in> set notebooks" and i: "i < length (trace (snd (run notebook w)))"
  note ord = notebooks_ordered [OF nb, of w]
  {
    assume "trace (snd (run notebook w)) ! i = Predict e payload"
    from ordered_predict [OF ord i this]
    show "e < i" "is_deploy (trace (snd (run notebook w)) ! e)"
      "\<And>j. j < i \<Longrightarrow> trace (snd (run notebook w)) ! j \<noteq> DeleteEndpoint e"
      by blast+
  }
  {
    assume "trace (snd (run notebook w)) ! i = DeleteEndpoint e"
    from ordered_delete [OF ord i this]
    show "e < i" "is_deploy (trace (snd (run notebook w)) ! e)"
      "\<And>j. j < i \<Longrightarrow> trace (snd (run notebook w)) ! j \<noteq> DeleteEndpoint e"
      "\<And>j. i < j \<and> j < length (trace (snd (run notebook w))) \<Longrightarrow>
            \<not> is_predict e (trace (snd (run notebook w)) ! j)"
      by blast+
  }
next
  fix notebook w i e
  assume nb: "notebook \<in> {tensorflow_distributed_mnist_neo, tensorflow_distributed_mnist_neo_inf1_studio,
                     tensorflow_serving_container, smp_mnist_model_parallel, preprocessing_builtin,
                     autogluon_tabular_marketplace}"
    and at: "i < length (trace (snd (run notebook w)))
                \<and> trace (snd (run notebook w)) ! i = DeleteEndpoint e"
  from ordered_delete_strict [OF notebooks_ordered_strict [OF nb, of w]] at
  show "\<exists>j < i. is_predict e (trace (snd (run notebook w)) ! j)" by blast
qed

lemmas prim_defs =
  bind_def ret_def raise_def lift_def gets_def update_disk_def ext_def sdk_def lib_def repo_def
  shell_def def_fun_def deploy_def predict_def delete_endpoint_def sdk_raise_def
  add_experiment_def lookup_def run_def Let_def

lemma elastic_inference_quiet_trace:
  "trace (snd (run tensorflow_serving_pretrained_model_elastic_inference quiet)) =
     [Sdk ''boto3.Session().region_name'' [],
      Sdk ''sagemaker.get_execution_role'' [],
      Sdk ''sagemaker.tensorflow.serving.Model''
        [''model_data=s3://sagemaker-sample-data-r0/tensorflow/model/resnet/resnet_50_v2_fp32_NCHW.tar.gz'',
         ''role=r1'', ''framework_version=1.14''],
      Deploy ''r2'' [''initial_instance_count=1'', ''instance_type=ml.m4.xlarge'',
                     ''accelerator_type=ml.eia1.medium''],
      Lib ''np.random.rand'' [''1'', ''1'', ''3'', ''3''],
      Predict 3 ''r4'',
      DeleteEndpoint 3]"
  by (simp add: tensorflow_serving_pretrained_model_elastic_inference_def prim_defs quiet_def
        str_nat.simps digit_def)

lemma elastic_inference_rand_fails_trace:
  "trace (snd (run tensorflow_serving_pretrained_model_elastic_inference rand_fails)) =
     [Sdk ''boto3.Session().region_name'' [],
      Sdk ''sagemaker.get_execution_role'' [],
      Sdk ''sagemaker.tensorflow.serving.Model''
        [''model_data=s3://sagemaker-sample-data-r0/tensorflow/model/resnet/resnet_50_v2_fp32_NCHW.tar.gz'',
         ''role=r1'', ''framework_version=1.14''],
      Deploy ''r2'' [''initial_instance_count=1'', ''instance_type=ml.m4.xlarge'',
                     ''accelerator_type=ml.eia1.medium''],
      Lib ''np.random.rand'' [''1'', ''1'', ''3'', ''3''],
      Raised (LibError ''ImportError''),
      Shown (LibError ''ImportError''),
      DeleteEndpoint 3]"
  by (simp add: tensorflow_serving_pretrained_model_elastic_inference_def prim_defs quiet_def
        rand_fails_def str_nat.simps digit_def)


lemma neo_quiet_trace:
  "trace (snd (run tensorflow_distributed_mnist_neo quiet)) =
     [Sdk ''sagemaker.Session'' [],
      Sdk ''get_execution_role'' [],
      Lib ''mnist.read_data_sets''
        [''data'', ''dtype=tf.uint8'', ''reshape=False'', ''validation_size=5000''],
      Repo ''utils.py'' ''convert_to'' [''r2.train'', ''train'', ''data''],
      Repo ''utils.py'' ''convert_to'' [''r2.validation'', ''validation'', ''data''],
      Repo ''utils.py'' ''convert_to'' [''r2.test'', ''test'', ''data''],
      Sdk ''Session.upload_data'' [''r0'', ''path=data'', ''key_prefix=data/DEMO-mnist''],
      Shell ''cat mnist.py'',
      Sdk ''TensorFlow''
        [''entry_point=mnist.py'', ''role=r1'', ''framework_version=1.15.3'', ''py_version=py3'',
         ''training_steps=100'', ''evaluation_steps=10'', ''instance_count=1'',
         ''instance_type=ml.c4.xlarge''],
      Sdk ''fit'' [''r8'', ''r6''],
      Deploy ''r8'' [''initial_instance_count=1'', ''instance_type=ml.m4.xlarge''],
      Lib ''input_data.read_data_sets'' [''/tmp/data/'', ''one_hot=True''],
      Predict 10 ''r11.test.images[0]'',
      Predict 10 ''r11.test.images[1]'',
      Predict 10 ''r11.test.images[2]'',
      Predict 10 ''r11.test.images[3]'',
      Predict 10 ''r11.test.images[4]'',
      Predict 10 ''r11.test.images[5]'',
      Predict 10 ''r11.test.images[6]'',
      Predict 10 ''r11.test.images[7]'',
      Predict 10 ''r11.test.images[8]'',
      Predict 10 ''r11.test.images[9]'',
      Sdk ''sagemaker.Session'' [],
      DeleteEndpoint 10,
      Sdk ''output_path'' [''r8''],
      Sdk ''compile_model''
        [''r8'', ''target_instance_family=ml_c5'', ''input_shape={data:[1, 784]}'',
         ''output_path='', ''framework=tensorflow'', ''framework_version=1.15.3''],
      Deploy ''r25'' [''initial_instance_count=1'', ''instance_type=ml.c5.xlarge''],
      Lib ''input_data.read_data_sets'' [''/tmp/data/'', ''one_hot=True''],
      Predict 26 ''r27.test.images[0]'',
      Predict 26 ''r27.test.images[1]'',
      Predict 26 ''r27.test.images[2]'',
      Predict 26 ''r27.test.images[3]'',
      Predict 26 ''r27.test.images[4]'',
      Predict 26 ''r27.test.images[5]'',
      Predict 26 ''r27.test.images[6]'',
      Predict 26 ''r27.test.images[7]'',
      Predict 26 ''r27.test.images[8]'',
      Predict 26 ''r27.test.images[9]'',
      Sdk ''sagemaker.Session'' [],
      DeleteEndpoint 26]"
  by (simp add: tensorflow_distributed_mnist_neo_def convert_mnist_def predict_test_images_def
        parent_uri_def upt10 prim_defs quiet_def str_nat.simps digit_def)

theorem endpoint_calls_in_order_witness:
  "tensorflow_serving_pretrained_model_elastic_inference \<in> set notebooks
   \<and> trace (snd (run tensorflow_serving_pretrained_model_elastic_inference quiet)) ! 5
       = Predict 3 ''r4''
   \<and> trace (snd (run tensorflow_serving_pretrained_model_elastic_inference quiet)) ! 6
       = DeleteEndpoint 3
   \<and> is_deploy (trace (snd (run tensorflow_serving_pretrained_model_elastic_inference quiet)) ! 3)
   \<and> trace (snd (run tensorflow_distributed_mnist_neo quiet)) ! 23 = DeleteEndpoint 10
   \<and> (\<exists>j < 23. is_predict 10 (trace (snd (run tensorflow_distributed_mnist_neo quiet)) ! j))"
proof -
  have nb: "tensorflow_serving_pretrained_model_elastic_inference \<in> set notebooks"
    by (simp add: notebooks_def)
  have len: "6 < length (trace (snd (run tensorflow_serving_pretrained_model_elastic_inference quiet)))"
    by (simp add: elastic_inference_quiet_trace)
  have del: "trace (snd (run tensorflow_serving_pretrained_model_elastic_inference quiet)) ! 6
               = DeleteEndpoint 3"
    by (simp add: elastic_inference_quiet_trace)
  have pre: "trace (snd (run tensorflow_serving_pretrained_model_elastic_inference quiet)) ! 5
               = Predict 3 ''r4''"
    by (simp add: elastic_inference_quiet_trace)
  have neo: "tensorflow_distributed_mnist_neo
               \<in> {tensorflow_distributed_mnist_neo, tensorflow_distributed_mnist_neo_inf1_studio,
                   tensorflow_serving_container, smp_mnist_model_parallel, preprocessing_builtin,
                   autogluon_tabular_marketplace}"
    by simp
  have at: "23 < length (trace (snd (run tensorflow_distributed_mnist_neo quiet)))
            \<and> trace (snd (run tensorflow_distributed_mnist_neo quiet)) ! 23 = DeleteEndpoint 10"
    by (simp add: neo_quiet_trace)
  note weak = endpoint_calls_in_order
    [THEN conjunct1, rule_format, OF nb len, THEN conjunct2, rule_format, OF del]
  note strong = endpoint_calls_in_order [THEN conjunct2, rule_format, OF neo at]
  show ?thesis using nb del pre at weak strong by blast
qed

text \<open>
  C4 as stated fails. The Neo notebook does not run its calls in the order configure,
  submit, invoke, clean up: in the quiet world it deletes its first endpoint (position 23)
  before it compiles the model (position 25) and deploys again (position 26). And a
  \<open>delete_endpoint\<close> can come with no \<open>predict\<close> before it: when \<open>np.random.rand\<close> fails in
  the \<open>%%time\<close> cell of the Elastic Inference notebook that predicts, the run goes on and
  deletes the endpoint, which has served nothing.
\<close>

theorem delete_before_compile_counterexample:
  "tensorflow_distributed_mnist_neo \<in> set notebooks
   \<and> trace (snd (run tensorflow_distributed_mnist_neo quiet)) ! 23 = DeleteEndpoint 10
   \<and> trace (snd (run tensorflow_distributed_mnist_neo quiet)) ! 25
       = Sdk ''compile_model''
           [''r8'', ''target_instance_family=ml_c5'', ''input_shape={data:[1, 784]}'',
            ''output_path='', ''framework=tensorflow'', ''framework_version=1.15.3'']
   \<and> trace (snd (run tensorflow_distributed_mnist_neo quiet)) ! 26
       = Deploy ''r25'' [''initial_instance_count=1'', ''instance_type=ml.c5.xlarge'']
   \<and> tensorflow_serving_pretrained_model_elastic_inference \<in> set notebooks
   \<and> trace (snd (run tensorflow_serving_pretrained_model_elastic_inference rand_fails)) ! 7
       = DeleteEndpoint 3
   \<and> \<not> list_ex (is_predict 3)
         (trace (snd (run tensorflow_serving_pretrained_model_elastic_inference rand_fails)))"
  by (simp add: neo_quiet_trace elastic_inference_rand_fails_trace notebooks_def is_predict_def)








text \<open>
  C6. No run of any notebook executes a \<open>def\<close> of \<open>aws_s3_sync\<close>,
  \<open>sync_local_checkpoints_to_s3\<close> or \<open>sync_s3_checkpoints_to_local\<close>: the only function a
  notebook defines is \<open>numpy_bytes_serializer\<close>.
\<close>

theorem checkpoint_helpers_defined_nowhere:
  "\<forall>notebook \<in> set notebooks. \<forall>w.
     (\<forall>name. Def name \<in> set (trace (snd (run notebook w))) \<longrightarrow> name = ''numpy_bytes_serializer'')
   \<and> (\<forall>helper \<in> set checkpoint_helpers. Def helper \<notin> set (trace (snd (run notebook w))))"
proof (intro ballI allI)
  fix notebook w
  assume "notebook \<in> set notebooks"
  then have "list_all no_helper_def (trace (snd (run notebook w)))"
    by (intro run_trace notebooks_emit)
  then have "name = ''numpy_bytes_serializer''"
    if "Def name \<in> set (trace (snd (run notebook w)))" for name
    using that by (auto simp: list_all_iff no_helper_def_def)
  then show "(\<forall>name. Def name \<in> set (trace (snd (run notebook w))) \<longrightarrow> name = ''numpy_bytes_serializer'')
   \<and> (\<forall>helper \<in> set checkpoint_helpers. Def helper \<notin> set (trace (snd (run notebook w))))"
    by (auto simp: checkpoint_helpers_def)
qed

lemma inf1_defines_serializer:
  "Def ''numpy_bytes_serializer''
     \<in> set (trace (snd (run tensorflow_distributed_mnist_neo_inf1_studio download_fails)))"
  by (simp add: tensorflow_distributed_mnist_neo_inf1_studio_def pin_sdk_version_def
        convert_mnist_def prim_defs quiet_def download_fails_def str_nat.simps digit_def)

theorem checkpoint_helpers_defined_nowhere_witness:
  "tensorflow_distributed_mnist_neo_inf1_studio \<in> set notebooks
   \<and> ''aws_s3_sync'' \<in> set checkpoint_helpers
   \<and> Def ''numpy_bytes_serializer''
       \<in> set (trace (snd (run tensorflow_distributed_mnist_neo_inf1_studio download_fails)))
   \<and> Def ''aws_s3_sync''
       \<notin> set (trace (snd (run tensorflow_distributed_mnist_neo_inf1_studio download_fails)))"
proof -
  have nb: "tensorflow_distributed_mnist_neo_inf1_studio \<in> set notebooks"
    by (simp add: notebooks_def)
  have h: "''aws_s3_sync'' \<in> set checkpoint_helpers"
    by (simp add: checkpoint_helpers_def)
  from checkpoint_helpers_defined_nowhere [rule_format, OF nb, THEN conjunct2, rule_format, OF h]
  show ?thesis using nb h inf1_defines_serializer by simp
qed

section \<open>The category ids and the manifest lines\<close>








section \<open>The experiment setup cell\<close>

lemma calls_of_simps [simp]:
  "calls_of name [] = 0"
  "calls_of name (t @ u) = calls_of name t + calls_of name u"
  "calls_of name (ev # t) =
     (case ev of Sdk n _ \<Rightarrow> if n = name then 1 else 0 | _ \<Rightarrow> 0) + calls_of name t"
  by (simp_all add: calls_of_def split: event.splits)

lemma experiment_setup_result:
  assumes "experiment_setup w = (r, w')"
  shows "(r = Inr ''SM-MP-DEMO''
            \<and> (if ''SM-MP-DEMO'' \<in> set (experiments w)
                then experiments w' = experiments w
                   \<and> calls_of ''Experiment.create'' (trace w') = calls_of ''Experiment.create'' (trace w)
                   \<and> calls_of ''Experiment.load'' (trace w') = calls_of ''Experiment.load'' (trace w) + 1
                else experiments w' = experiments w @ [''SM-MP-DEMO'']
                   \<and> calls_of ''Experiment.create'' (trace w') = calls_of ''Experiment.create'' (trace w) + 1
                   \<and> calls_of ''Experiment.load'' (trace w') = calls_of ''Experiment.load'' (trace w)))
       \<or> ((\<exists>e. r = Inl e) \<and> experiments w' = experiments w
            \<and> (\<exists>n. raises w n \<noteq> None))"
  using assms
  unfolding experiment_setup_def experiment_list_def experiment_create_def experiment_load_def
    bind_def ret_def gets_def sdk_def ext_def sdk_raise_def add_experiment_def Let_def
  by (auto split: option.splits if_splits)

text \<open>
  C9. The experiment-setup cell, when it completes: the experiment it hands on is
  \<open>SM-MP-DEMO\<close>; if that experiment existed it is loaded and none is created, otherwise
  exactly one is created; either way the experiment names afterwards are the earlier ones
  and \<open>SM-MP-DEMO\<close>, and running the cell again changes nothing. When the cell fails, the
  experiments are as before. When no call raises, the cell completes.
\<close>

theorem experiment_setup_idempotent:
  "(\<forall>name w'. experiment_setup w = (Inr name, w') \<longrightarrow>
        name = ''SM-MP-DEMO''
      \<and> set (experiments w') = insert ''SM-MP-DEMO'' (set (experiments w))
      \<and> (''SM-MP-DEMO'' \<in> set (experiments w) \<longrightarrow>
            experiments w' = experiments w
          \<and> calls_of ''Experiment.create'' (trace w') = calls_of ''Experiment.create'' (trace w)
          \<and> calls_of ''Experiment.load'' (trace w') = calls_of ''Experiment.load'' (trace w) + 1)
      \<and> (''SM-MP-DEMO'' \<notin> set (experiments w) \<longrightarrow>
            experiments w' = experiments w @ [''SM-MP-DEMO'']
          \<and> calls_of ''Experiment.create'' (trace w') = calls_of ''Experiment.create'' (trace w) + 1)
      \<and> (\<forall>again w''. experiment_setup w' = (again, w'') \<longrightarrow> experiments w'' = experiments w'))
   \<and> (\<forall>e w'. experiment_setup w = (Inl e, w') \<longrightarrow> experiments w' = experiments w)
   \<and> ((\<forall>n. raises w n = None) \<longrightarrow> (\<exists>w'. experiment_setup w = (Inr ''SM-MP-DEMO'', w')))"
proof (intro conjI allI impI)
  fix name w'
  assume run: "experiment_setup w = (Inr name, w')"
  note first = experiment_setup_result [OF run]
  show "name = ''SM-MP-DEMO''" using first by auto
  show "set (experiments w') = insert ''SM-MP-DEMO'' (set (experiments w))"
    using first by (auto split: if_splits)
  have present: "''SM-MP-DEMO'' \<in> set (experiments w')"
    using first by (auto split: if_splits)
  {
    assume "''SM-MP-DEMO'' \<in> set (experiments w)"
    then show "experiments w' = experiments w"
      "calls_of ''Experiment.create'' (trace w') = calls_of ''Experiment.create'' (trace w)"
      "calls_of ''Experiment.load'' (trace w') = calls_of ''Experiment.load'' (trace w) + 1"
      using first by auto
  }
  {
    assume "''SM-MP-DEMO'' \<notin> set (experiments w)"
    then show "experiments w' = experiments w @ [''SM-MP-DEMO'']"
      "calls_of ''Experiment.create'' (trace w') = calls_of ''Experiment.create'' (trace w) + 1"
      using first by auto
  }
  {
    fix again w''
    assume "experiment_setup w' = (again, w'')"
    from experiment_setup_result [OF this] present
    show "experiments w'' = experiments w'" by auto
  }
next
  fix e w'
  assume "experiment_setup w = (Inl e, w')"
  from experiment_setup_result [OF this]
  show "experiments w' = experiments w" by auto
next
  assume quiet: "\<forall>n. raises w n = None"
  obtain r w' where run: "experiment_setup w = (r, w')" by (cases "experiment_setup w")
  from experiment_setup_result [OF run] quiet have "r = Inr ''SM-MP-DEMO''" by auto
  then show "\<exists>w'. experiment_setup w = (Inr ''SM-MP-DEMO'', w')" using run by blast
qed

lemma experiment_setup_quiet:
  "experiment_setup quiet =
     (Inr ''SM-MP-DEMO'',
      quiet\<lparr>trace := [Sdk ''Experiment.list'' [], Sdk ''boto3.client'' [''sagemaker''],
                       Sdk ''Experiment.create'' [''SM-MP-DEMO'', ''r1'']],
            experiments := [''SM-MP-DEMO'']\<rparr>)"
  unfolding experiment_setup_def experiment_list_def experiment_create_def experiment_load_def
    bind_def ret_def gets_def sdk_def ext_def sdk_raise_def add_experiment_def Let_def
  by (simp add: quiet_def str_nat.simps digit_def)

theorem experiment_setup_idempotent_witness:
  "experiments quiet = []
   \<and> set (experiments (snd (experiment_setup quiet))) = {''SM-MP-DEMO''}
   \<and> calls_of ''Experiment.create'' (trace (snd (experiment_setup quiet))) = 1
   \<and> experiments (snd (experiment_setup (snd (experiment_setup quiet)))) = [''SM-MP-DEMO'']"
proof -
  let ?w' = "snd (experiment_setup quiet)"
  have run: "experiment_setup quiet = (Inr ''SM-MP-DEMO'', ?w')"
    by (simp add: experiment_setup_quiet)
  have e: "experiments quiet = []" "trace quiet = []" by (simp_all add: quiet_def)
  have again: "experiment_setup ?w' = (fst (experiment_setup ?w'), snd (experiment_setup ?w'))"
    by simp
  note inst = experiment_setup_idempotent [of quiet, THEN conjunct1, rule_format, OF run]
  have "set (experiments ?w') = insert ''SM-MP-DEMO'' (set (experiments quiet))"
    using inst by blast
  moreover have "calls_of ''Experiment.create'' (trace ?w') = calls_of ''Experiment.create'' (trace quiet) + 1"
    using inst e by simp
  moreover have "experiments ?w' = experiments quiet @ [''SM-MP-DEMO'']"
    using inst e by simp
  moreover have "experiments (snd (experiment_setup ?w')) = experiments ?w'"
    using inst again by blast
  ultimately show ?thesis using e by simp
qed

section \<open>State kept on the local disk\<close>

lemma dirname_bucket_pickle [simp]:
  "dirname ''pickled_data/builtin_bucket_name.pickle'' = ''pickled_data''"
  by (simp add: dirname_def)













section \<open>Calls into the repository\<close>

lemma estimator_gets_simps [simp]:
  "estimator_gets arn (Deploy m a)" "estimator_gets arn (Predict e p)"
  "estimator_gets arn (DeleteEndpoint e)" "estimator_gets arn (Lib n a)"
  "estimator_gets arn (Repo f n a)" "estimator_gets arn (Shell c)" "estimator_gets arn (Raised x)"
  "estimator_gets arn (Def d)" "estimator_gets arn (Shown x)"
  "estimator_gets arn (Sdk n a) = (n = ''AlgorithmEstimator'' \<longrightarrow> hd a = ''algorithm_arn='' @ arn)"
  by (auto simp: estimator_gets_def)

lemma emits_after_arn:
  "emits (estimator_gets algorithm_arn) (autogluon_after_arn session bucket region role algorithm_arn)"
  unfolding autogluon_after_arn_def cell_defs file_defs Let_def
  by (intro emits_basic; simp)

lemma autogluon_first_calls:
  assumes "\<forall>n < 5. raises w n = None"
  shows "\<exists>evs. trace (snd (run autogluon_tabular_marketplace w)) =
              [Sdk ''sagemaker.Session'' [],
               Sdk ''default_bucket'' [returns w 0],
               Sdk ''boto_region_name'' [returns w 0],
               Sdk ''get_execution_role'' [],
               Repo ''src/algorithm_arns.py'' ''AlgorithmArnProvider.get_algorithm_arn''
                 [returns w 2]] @ evs
            \<and> list_all (estimator_gets (returns w 4)) evs"
proof -
  from assms have q: "raises w 0 = None" "raises w (Suc 0) = None" "raises w (Suc (Suc 0)) = None"
    "raises w (Suc (Suc (Suc 0))) = None" "raises w (Suc (Suc (Suc (Suc 0)))) = None"
    by simp_all
  let ?w5 = "w\<lparr>trace := [Sdk ''sagemaker.Session'' [],
               Sdk ''default_bucket'' [returns w 0],
               Sdk ''boto_region_name'' [returns w 0],
               Sdk ''get_execution_role'' [],
               Repo ''src/algorithm_arns.py'' ''AlgorithmArnProvider.get_algorithm_arn''
                 [returns w 2]],
             disk := effect w 4 (effect w 3 (effect w 2 (effect w 1 (effect w 0 (disk w)))))\<rparr>"
  have step: "run autogluon_tabular_marketplace w
          = autogluon_after_arn (returns w 0) (returns w 1) (returns w 2) (returns w 3)
              (returns w 4) ?w5"
    using q
    by (simp add: run_def autogluon_tabular_marketplace_def get_algorithm_arn_def sdk_def
          repo_def ext_def bind_def Let_def eval_nat_numeral)
  obtain evs where
    evs: "trace (snd (autogluon_after_arn (returns w 0) (returns w 1) (returns w 2) (returns w 3)
                   (returns w 4) ?w5)) = trace ?w5 @ evs"
    "list_all (estimator_gets (returns w 4)) evs"
    using emits_after_arn unfolding emits_def by blast
  have "trace (snd (run autogluon_tabular_marketplace w)) = trace ?w5 @ evs"
    using evs(1) step by simp
  then show ?thesis using evs(2) by (intro exI [of _ evs]) simp
qed

lemma autogluon_early_failure:
  assumes "\<not> (\<forall>n < 5. raises w n = None)"
  shows "Sdk ''AlgorithmEstimator'' args \<notin> set (trace (snd (run autogluon_tabular_marketplace w)))"
  using assms
  by (auto simp: run_def autogluon_tabular_marketplace_def get_algorithm_arn_def sdk_def
        repo_def ext_def bind_def Let_def less_Suc_eq eval_nat_numeral
      split: option.splits)

text \<open>
  C3, amended. The Elastic Inference, model-parallel and preprocessing notebooks call no
  code defined in another file of the repository, in any run. The AutoGluon notebook does:
  whenever one of its runs constructs the \<open>AlgorithmEstimator\<close>, its fifth call was
  \<open>AlgorithmArnProvider.get_algorithm_arn\<close> of \<open>src/algorithm_arns.py\<close>, on the region the
  session reported, and the estimator is given the ARN that call returned.
\<close>

theorem autogluon_composes_with_algorithm_arns:
  "(\<forall>notebook \<in> {tensorflow_serving_pretrained_model_elastic_inference,
                    smp_mnist_model_parallel, preprocessing_builtin}.
      \<forall>w. \<forall>ev \<in> set (trace (snd (run notebook w))). \<not> is_repo ev)
   \<and> (\<forall>w i args.
        i < length (trace (snd (run autogluon_tabular_marketplace w)))
        \<and> trace (snd (run autogluon_tabular_marketplace w)) ! i = Sdk ''AlgorithmEstimator'' args
        \<longrightarrow> 4 < i
          \<and> trace (snd (run autogluon_tabular_marketplace w)) ! 2
              = Sdk ''boto_region_name'' [returns w 0]
          \<and> trace (snd (run autogluon_tabular_marketplace w)) ! 4
              = Repo ''src/algorithm_arns.py'' ''AlgorithmArnProvider.get_algorithm_arn''
                  [returns w 2]
          \<and> hd args = ''algorithm_arn='' @ returns w 4)"
proof (intro conjI ballI allI impI)
  fix notebook w ev
  assume nb: "notebook \<in> {tensorflow_serving_pretrained_model_elastic_inference,
                    smp_mnist_model_parallel, preprocessing_builtin}"
    and ev: "ev \<in> set (trace (snd (run notebook w)))"
  have a: "emits (\<lambda>ev. \<not> is_repo ev) tensorflow_serving_pretrained_model_elastic_inference"
    by (rule emits_mono [OF emits_elastic_inference]) simp
  have b: "emits (\<lambda>ev. \<not> is_repo ev) smp_mnist_model_parallel"
    by (rule emits_mono [OF emits_model_parallel]) (rule plain_no_repo)
  have c: "emits (\<lambda>ev. \<not> is_repo ev) preprocessing_builtin"
    by (rule emits_mono [OF emits_preprocessing]) (rule plain_no_repo)
  have "emits (\<lambda>ev. \<not> is_repo ev) notebook"
    using nb a b c by auto
  from run_trace [OF this, of w] ev show "\<not> is_repo ev"
    by (simp add: list_all_iff)
next
  fix w i args
  let ?t = "trace (snd (run autogluon_tabular_marketplace w))"
  assume "i < length ?t \<and> ?t ! i = Sdk ''AlgorithmEstimator'' args"
  then have i: "i < length ?t" and at: "?t ! i = Sdk ''AlgorithmEstimator'' args" by simp_all
  have mem: "Sdk ''AlgorithmEstimator'' args \<in> set ?t" using i at by (metis nth_mem)
  have "\<forall>n < 5. raises w n = None"
    using autogluon_early_failure [of w args] mem by blast
  from autogluon_first_calls [OF this] obtain evs where
    t: "?t = [Sdk ''sagemaker.Session'' [],
               Sdk ''default_bucket'' [returns w 0],
               Sdk ''boto_region_name'' [returns w 0],
               Sdk ''get_execution_role'' [],
               Repo ''src/algorithm_arns.py'' ''AlgorithmArnProvider.get_algorithm_arn''
                 [returns w 2]] @ evs"
    and evs: "list_all (estimator_gets (returns w 4)) evs"
    by blast
  have five: "4 < i"
  proof (rule ccontr)
    assume "\<not> 4 < i"
    then have "i = 0 \<or> i = 1 \<or> i = 2 \<or> i = 3 \<or> i = 4" by auto
    then show False using at unfolding t by auto
  qed
  then have "?t ! i = evs ! (i - 5)" unfolding t by (simp add: nth_append eval_nat_numeral)
  moreover have "i - 5 < length evs" using i five unfolding t by simp
  ultimately have "Sdk ''AlgorithmEstimator'' args \<in> set evs" using at by (metis nth_mem)
  then have "hd args = ''algorithm_arn='' @ returns w 4"
    using evs by (auto simp: list_all_iff)
  then show "4 < i" "?t ! 2 = Sdk ''boto_region_name'' [returns w 0]"
    "?t ! 4 = Repo ''src/algorithm_arns.py'' ''AlgorithmArnProvider.get_algorithm_arn''
                  [returns w 2]"
    "hd args = ''algorithm_arn='' @ returns w 4"
    using five unfolding t by simp_all
qed

lemma autogluon_with_data_trace:
  "trace (snd (run autogluon_tabular_marketplace with_data)) =
     [Sdk ''sagemaker.Session'' [],
      Sdk ''default_bucket'' [''r0''],
      Sdk ''boto_region_name'' [''r0''],
      Sdk ''get_execution_role'' [],
      Repo ''src/algorithm_arns.py'' ''AlgorithmArnProvider.get_algorithm_arn'' [''r2''],
      Shell ''apt-get update -y'',
      Shell ''apt install unzip'',
      Shell ''aws s3 cp --region r2 s3://sagemaker-sample-data-r2/autopilot/direct_marketing/bank-additional.zip .'',
      Shell ''unzip -qq -o bank-additional.zip'',
      Shell ''rm bank-additional.zip'',
      Sdk ''upload_data'' [''r0'', ''train.csv'', ''key_prefix=sagemaker/autogluon-tabular/data''],
      Sdk ''upload_data'' [''r0'', ''test.csv'', ''key_prefix=sagemaker/autogluon-tabular/data''],
      Sdk ''upload_data'' [''r0'', ''X_test.csv'', ''key_prefix=sagemaker/autogluon-tabular/data''],
      Sdk ''AlgorithmEstimator''
        [''algorithm_arn=r4'', ''role=r3'', ''instance_count=1'', ''instance_type=ml.m5.4xlarge'',
         ''sagemaker_session=r0'', ''base_job_name=autogluon'',
         ''hyperparameters={init_args: {label: y}, fit_args: {presets: [optimize_for_deployment]}, feature_importance: True}'',
         ''train_volume_size=100''],
      Raised (SdkError ''AccessDenied'')]"
  by (simp add: autogluon_tabular_marketplace_def autogluon_after_arn_def get_algorithm_arn_def
        split_train_test_def read_csv_def df_sample_def df_take_def df_drop_def df_index_def
        df_column_def df_drop_columns_def to_csv_file_def to_csv_text_def write_text_def
        enumerate_eq_zip prim_defs quiet_def empty_disk_def with_data_def str_nat.simps digit_def)

theorem autogluon_composes_with_algorithm_arns_witness:
  "13 < length (trace (snd (run autogluon_tabular_marketplace with_data)))
   \<and> trace (snd (run autogluon_tabular_marketplace with_data)) ! 13
       = Sdk ''AlgorithmEstimator''
           [''algorithm_arn=r4'', ''role=r3'', ''instance_count=1'',
            ''instance_type=ml.m5.4xlarge'', ''sagemaker_session=r0'', ''base_job_name=autogluon'',
            ''hyperparameters={init_args: {label: y}, fit_args: {presets: [optimize_for_deployment]}, feature_importance: True}'',
            ''train_volume_size=100'']
   \<and> trace (snd (run autogluon_tabular_marketplace with_data)) ! 4
       = Repo ''src/algorithm_arns.py'' ''AlgorithmArnProvider.get_algorithm_arn''
           [returns with_data 2]
   \<and> returns with_data 4 = ''r4''
   \<and> list_all (\<lambda>ev. \<not> is_repo ev)
        (trace (snd (run tensorflow_serving_pretrained_model_elastic_inference quiet)))"
proof -
  have at: "13 < length (trace (snd (run autogluon_tabular_marketplace with_data)))
     \<and> trace (snd (run autogluon_tabular_marketplace with_data)) ! 13
       = Sdk ''AlgorithmEstimator''
           [''algorithm_arn=r4'', ''role=r3'', ''instance_count=1'',
            ''instance_type=ml.m5.4xlarge'', ''sagemaker_session=r0'', ''base_job_name=autogluon'',
            ''hyperparameters={init_args: {label: y}, fit_args: {presets: [optimize_for_deployment]}, feature_importance: True}'',
            ''train_volume_size=100'']"
    by (simp add: autogluon_with_data_trace)
  have r: "returns with_data 4 = ''r4''"
    by (simp add: with_data_def quiet_def str_nat.simps digit_def)
  have nb: "tensorflow_serving_pretrained_model_elastic_inference
              \<in> {tensorflow_serving_pretrained_model_elastic_inference,
                  smp_mnist_model_parallel, preprocessing_builtin}"
    by simp
  note flow = autogluon_composes_with_algorithm_arns [THEN conjunct2, rule_format, OF at]
  note none = autogluon_composes_with_algorithm_arns [THEN conjunct1, rule_format, OF nb]
  have "trace (snd (run autogluon_tabular_marketplace with_data)) ! 4
       = Repo ''src/algorithm_arns.py'' ''AlgorithmArnProvider.get_algorithm_arn''
           [returns with_data 2]"
    using flow by blast
  moreover have "list_all (\<lambda>ev. \<not> is_repo ev)
        (trace (snd (run tensorflow_serving_pretrained_model_elastic_inference quiet)))"
    using none by (simp add: list_all_iff)
  ultimately show ?thesis using at r by blast
qed

text \<open>
  C3 as stated fails: the fifth call of the AutoGluon notebook is a call of a function
  defined in \<open>src/algorithm_arns.py\<close>, a file of the repository.
\<close>

theorem autogluon_calls_repository_code_counterexample:
  "autogluon_tabular_marketplace \<in> set notebooks
   \<and> trace (snd (run autogluon_tabular_marketplace with_data)) ! 4
       = Repo ''src/algorithm_arns.py'' ''AlgorithmArnProvider.get_algorithm_arn'' [''r2'']
   \<and> is_repo (trace (snd (run autogluon_tabular_marketplace with_data)) ! 4)"
  by (simp add: autogluon_with_data_trace notebooks_def)

section \<open>The train/test split\<close>

lemma enumerate_rows:
  "map fst (enumerate 0 body) = [0..<length body]"
  by (simp add: enumerate_eq_zip)

lemma sample_and_rest:
  fixes rs :: "(nat \<times> 'a) list"
  assumes idx: "map fst rs = [0..<length rs]"
    and pos: "distinct pos" "\<forall>i \<in> set pos. i < length rs"
  shows "map fst (map (\<lambda>i. rs ! i) pos) = pos"
    and "mset (map (\<lambda>i. rs ! i) pos) + mset (filter (\<lambda>r. fst r \<notin> set pos) rs) = mset rs"
proof -
  have fst_nth: "fst (rs ! i) = i" if "i < length rs" for i
    using idx that by (metis add_0 nth_map nth_upt)
  show "map fst (map (\<lambda>i. rs ! i) pos) = pos"
    using pos(2) fst_nth by (induction pos) auto
  have d: "distinct rs"
    using idx by (metis distinct_map distinct_upt)
  have "inj_on (\<lambda>i. rs ! i) (set pos)"
    using pos(2) d by (auto simp: inj_on_def nth_eq_iff_index_eq)
  then have d1: "distinct (map (\<lambda>i. rs ! i) pos)"
    using pos(1) by (simp add: distinct_map)
  have d2: "distinct (filter (\<lambda>r. fst r \<in> set pos) rs)"
    using d by simp
  have "set (map (\<lambda>i. rs ! i) pos) = set (filter (\<lambda>r. fst r \<in> set pos) rs)"
  proof (intro set_eqI iffI)
    fix r assume "r \<in> set (map (\<lambda>i. rs ! i) pos)"
    then obtain i where "i \<in> set pos" "r = rs ! i" by auto
    then show "r \<in> set (filter (\<lambda>r. fst r \<in> set pos) rs)"
      using pos(2) fst_nth by auto
  next
    fix r assume "r \<in> set (filter (\<lambda>r. fst r \<in> set pos) rs)"
    then have "r \<in> set rs" "fst r \<in> set pos" by auto
    then obtain j where "j < length rs" "r = rs ! j" by (metis in_set_conv_nth)
    then show "r \<in> set (map (\<lambda>i. rs ! i) pos)"
      using \<open>fst r \<in> set pos\<close> fst_nth by auto
  qed
  then have "mset (map (\<lambda>i. rs ! i) pos) = mset (filter (\<lambda>r. fst r \<in> set pos) rs)"
    using d1 d2 set_eq_iff_mset_eq_distinct by blast
  then show "mset (map (\<lambda>i. rs ! i) pos) + mset (filter (\<lambda>r. fst r \<notin> set pos) rs) = mset rs"
    by simp
qed

lemma split_train_test_result:
  assumes "split_train_test path w = (Inr (data, train, test, y_test, X_test), w')"
  shows "\<exists>header body.
           csv_files (disk w) path = Some (header, body)
         \<and> (\<forall>i \<in> set (sampled w (length body)). i < length body)
         \<and> data = \<lparr>columns = header, rows = enumerate 0 body\<rparr>
         \<and> train = \<lparr>columns = header,
                     rows = map (\<lambda>i. enumerate 0 body ! i) (sampled w (length body))\<rparr>
         \<and> test = \<lparr>columns = header,
                    rows = filter (\<lambda>r. fst r \<notin> set (df_index train)) (enumerate 0 body)\<rparr>
         \<and> df_column ''y'' test = Inr y_test
         \<and> df_drop_columns [''y''] test = Inr X_test
         \<and> w' = w"
  using assms
  unfolding split_train_test_def read_csv_def df_sample_def bind_def ret_def raise_def lift_def
    gets_def Let_def
  by (auto simp: df_take_def df_drop_def df_index_def split: option.splits sum.splits if_splits)

lemma df_column_present: "df_column name df = Inr series \<Longrightarrow> name \<in> set (columns df)"
  by (auto simp: df_column_def split: if_splits)

text \<open>
  C7. When the split cell completes and the sampled positions are pairwise distinct (a
  sample without replacement): no index label is in both \<open>train\<close> and \<open>test\<close>, the rows of
  \<open>train\<close> and \<open>test\<close> together are the rows of \<open>data\<close>, each exactly once, and \<open>X_test\<close> has
  the index of \<open>test\<close>, row for row, the columns of \<open>test\<close> without \<open>y\<close>, and in each row the
  cells of \<open>test\<close> without the one under \<open>y\<close>. The cell changes nothing in the world. It
  completes when the CSV file is there, has a column \<open>y\<close>, and the sampled positions are
  positions of its rows.
\<close>

theorem train_test_split_is_a_partition:
  "(\<forall>data train test y_test X_test w'.
       split_train_test path w = (Inr (data, train, test, y_test, X_test), w')
       \<and> distinct (sampled w (length (rows data)))
     \<longrightarrow> set (df_index train) \<inter> set (df_index test) = {}
       \<and> mset (rows train) + mset (rows test) = mset (rows data)
       \<and> distinct (df_index data)
       \<and> df_index X_test = df_index test
       \<and> columns X_test = filter (\<lambda>c. c \<noteq> ''y'') (columns test)
       \<and> map snd (rows X_test)
           = map (\<lambda>r. map snd (filter (\<lambda>(c, v). c \<noteq> ''y'') (zip (columns test) (snd r))))
               (rows test)
       \<and> w' = w)
   \<and> (\<forall>header body.
        csv_files (disk w) path = Some (header, body)
        \<and> (\<forall>i \<in> set (sampled w (length body)). i < length body)
        \<and> ''y'' \<in> set header
      \<longrightarrow> (\<exists>result. split_train_test path w = (Inr result, w)))"
proof (intro conjI allI impI)
  fix data train test y_test X_test w'
  assume "split_train_test path w = (Inr (data, train, test, y_test, X_test), w')
          \<and> distinct (sampled w (length (rows data)))"
  then have run: "split_train_test path w = (Inr (data, train, test, y_test, X_test), w')"
    and dist: "distinct (sampled w (length (rows data)))" by simp_all
  from split_train_test_result [OF run] obtain header body where
    valid: "\<forall>i \<in> set (sampled w (length body)). i < length body"
    and data: "data = \<lparr>columns = header, rows = enumerate 0 body\<rparr>"
    and train: "train = \<lparr>columns = header,
                     rows = map (\<lambda>i. enumerate 0 body ! i) (sampled w (length body))\<rparr>"
    and test: "test = \<lparr>columns = header,
                    rows = filter (\<lambda>r. fst r \<notin> set (df_index train)) (enumerate 0 body)\<rparr>"
    and xt: "df_drop_columns [''y''] test = Inr X_test"
    and w': "w' = w"
    by blast
  let ?rs = "enumerate 0 body"
  let ?pos = "sampled w (length body)"
  have idx: "map fst ?rs = [0..<length ?rs]" by (simp add: enumerate_eq_zip)
  have dpos: "distinct ?pos" using dist data by simp
  have vpos: "\<forall>i \<in> set ?pos. i < length ?rs" using valid by simp
  note part = sample_and_rest [OF idx dpos vpos]
  have ti: "df_index train = ?pos" using part(1) train by (simp add: df_index_def)
  have tr: "rows test = filter (\<lambda>r. fst r \<notin> set ?pos) ?rs" using test ti by simp
  show "set (df_index train) \<inter> set (df_index test) = {}"
    using ti tr by (auto simp: df_index_def)
  show "mset (rows train) + mset (rows test) = mset (rows data)"
    using part(2) train tr data by simp
  show "distinct (df_index data)"
    using data idx by (simp add: df_index_def)
  have X: "X_test = \<lparr>columns = filter (\<lambda>c. c \<notin> set [''y'']) (columns test),
                rows = map (\<lambda>(i, cells).
                         (i, map snd (filter (\<lambda>(c, v). c \<notin> set [''y'']) (zip (columns test) cells))))
                       (rows test)\<rparr>"
    using xt by (auto simp: df_drop_columns_def split: if_splits)
  show "df_index X_test = df_index test"
    unfolding X by (simp add: df_index_def case_prod_unfold comp_def)
  show "columns X_test = filter (\<lambda>c. c \<noteq> ''y'') (columns test)"
    unfolding X by simp
  show "map snd (rows X_test)
           = map (\<lambda>r. map snd (filter (\<lambda>(c, v). c \<noteq> ''y'') (zip (columns test) (snd r))))
               (rows test)"
    unfolding X by (simp add: case_prod_unfold comp_def)
  show "w' = w" by (rule w')
next
  fix header body
  assume "csv_files (disk w) path = Some (header, body)
        \<and> (\<forall>i \<in> set (sampled w (length body)). i < length body)
        \<and> ''y'' \<in> set header"
  then have csv: "csv_files (disk w) path = Some (header, body)"
    and valid: "\<forall>i \<in> set (sampled w (length body)). i < length body"
    and y: "''y'' \<in> set header" by simp_all
  have sub: "(\<lambda>x. fst (enumerate 0 body ! x)) ` set (sampled w (length body))
               \<subseteq> {0..<length body}"
    using valid by (auto simp: nth_enumerate_eq)
  show "\<exists>result. split_train_test path w = (Inr result, w)"
    using csv valid y sub
    unfolding split_train_test_def read_csv_def df_sample_def bind_def ret_def raise_def lift_def
      gets_def Let_def
    by (simp add: df_take_def df_drop_def df_index_def df_column_def df_drop_columns_def)
qed

lemma split_with_data:
  "split_train_test ''./bank-additional/bank-additional-full.csv'' with_data =
     (Inr (\<lparr>columns = [''age'', ''y''],
            rows = [(0, [''30'', ''no'']), (1, [''41'', ''yes'']), (2, [''52'', ''no''])]\<rparr>,
           \<lparr>columns = [''age'', ''y''], rows = [(2, [''52'', ''no'']), (0, [''30'', ''no''])]\<rparr>,
           \<lparr>columns = [''age'', ''y''], rows = [(1, [''41'', ''yes''])]\<rparr>,
           [(1, ''yes'')],
           \<lparr>columns = [''age''], rows = [(1, [''41''])]\<rparr>),
      with_data)"
  by (simp add: split_train_test_def read_csv_def df_sample_def df_take_def df_drop_def
        df_index_def df_column_def df_drop_columns_def enumerate_eq_zip
        bind_def ret_def raise_def lift_def gets_def Let_def
        quiet_def empty_disk_def with_data_def)

theorem train_test_split_is_a_partition_witness:
  "split_train_test ''./bank-additional/bank-additional-full.csv'' with_data =
     (Inr (\<lparr>columns = [''age'', ''y''],
            rows = [(0, [''30'', ''no'']), (1, [''41'', ''yes'']), (2, [''52'', ''no''])]\<rparr>,
           \<lparr>columns = [''age'', ''y''], rows = [(2, [''52'', ''no'']), (0, [''30'', ''no''])]\<rparr>,
           \<lparr>columns = [''age'', ''y''], rows = [(1, [''41'', ''yes''])]\<rparr>,
           [(1, ''yes'')],
           \<lparr>columns = [''age''], rows = [(1, [''41''])]\<rparr>),
      with_data)
   \<and> distinct (sampled with_data 3)
   \<and> set (df_index \<lparr>columns = [''age'', ''y''],
                    rows = [(2, [''52'', ''no'']), (0, [''30'', ''no''])]\<rparr>)
       \<inter> set (df_index \<lparr>columns = [''age'', ''y''], rows = [(1, [''41'', ''yes''])]\<rparr>) = {}
   \<and> mset [(2, [''52'', ''no'']), (0, [''30'', ''no''])] + mset [(1, [''41'', ''yes''])]
       = mset [(0 :: nat, [''30'', ''no'']), (1, [''41'', ''yes'']), (2, [''52'', ''no''])]
   \<and> csv_files (disk with_data) ''./bank-additional/bank-additional-full.csv''
       = Some ([''age'', ''y''], [[''30'', ''no''], [''41'', ''yes''], [''52'', ''no'']])
   \<and> (\<exists>result. split_train_test ''./bank-additional/bank-additional-full.csv'' with_data
                  = (Inr result, with_data))"
proof -
  let ?path = "''./bank-additional/bank-additional-full.csv''"
  let ?data = "\<lparr>columns = [''age'', ''y''],
                rows = [(0 :: nat, [''30'', ''no'']), (1, [''41'', ''yes'']), (2, [''52'', ''no''])]\<rparr>"
  have dn: "distinct (sampled with_data n)" for n by (simp add: with_data_def quiet_def)
  have d: "distinct (sampled with_data 3)" by (rule dn)
  have pre: "split_train_test ?path with_data =
     (Inr (?data,
           \<lparr>columns = [''age'', ''y''], rows = [(2, [''52'', ''no'']), (0, [''30'', ''no''])]\<rparr>,
           \<lparr>columns = [''age'', ''y''], rows = [(1, [''41'', ''yes''])]\<rparr>,
           [(1, ''yes'')],
           \<lparr>columns = [''age''], rows = [(1, [''41''])]\<rparr>),
      with_data)
    \<and> distinct (sampled with_data (length (rows ?data)))"
    using split_with_data dn by simp
  have csv: "csv_files (disk with_data) ?path
       = Some ([''age'', ''y''], [[''30'', ''no''], [''41'', ''yes''], [''52'', ''no'']])"
    by (simp add: with_data_def quiet_def empty_disk_def)
  have pre2: "csv_files (disk with_data) ?path
       = Some ([''age'', ''y''], [[''30'', ''no''], [''41'', ''yes''], [''52'', ''no'']])
     \<and> (\<forall>i \<in> set (sampled with_data
                      (length [[''30'', ''no''], [''41'', ''yes''], [''52'', ''no'']])). i < length [[''30'', ''no''], [''41'', ''yes''], [''52'', ''no'']])
     \<and> ''y'' \<in> set [''age'', ''y'']"
    using csv by (simp add: with_data_def quiet_def)
  note part = train_test_split_is_a_partition [of ?path with_data, THEN conjunct1, rule_format, OF pre]
  note total = train_test_split_is_a_partition [of ?path with_data, THEN conjunct2, rule_format, OF pre2]
  have "mset [(2, [''52'', ''no'']), (0, [''30'', ''no''])] + mset [(1, [''41'', ''yes''])]
       = mset [(0 :: nat, [''30'', ''no'']), (1, [''41'', ''yes'']), (2, [''52'', ''no''])]"
    using part by simp
  then show ?thesis using part total split_with_data d csv by blast
qed

section \<open>The manifest loop\<close>

lemma lst_entry_ok:
  assumes "3 \<le> length p" "ids (p ! (length p - 2)) \<noteq> None"
  shows "lst_entry ids idx p = Inr (lst_name p, lst_line ids (idx, p))"
  using assms by (auto simp: lst_entry_def part_from_end_def lst_name_def lst_line_def Let_def)

lemma lst_round:
  "bind (lift (lst_entry ids idx p)) (\<lambda>(fname, line). append_text fname line) w =
     (case lst_entry ids idx p of
        Inl e \<Rightarrow> (Inl e, w)
      | Inr (fname, line) \<Rightarrow>
          (Inr (), w\<lparr>disk := (disk w)\<lparr>text_files := (text_files (disk w))
             (fname \<mapsto> (case text_files (disk w) fname of None \<Rightarrow> [] | Some old \<Rightarrow> old) @ line)\<rparr>\<rparr>))"
  by (simp add: bind_def lift_def append_text_def update_disk_def split: sum.splits prod.splits)

lemma bind_Inr: "m w = (Inr x, w1) \<Longrightarrow> bind m f w = f x w1"
  by (simp add: bind_def)

lemma bind_Inl: "m w = (Inl e, w1) \<Longrightarrow> bind m f w = (Inl e, w1)"
  by (simp add: bind_def)

lemma lst_loop_local:
  "for_each xs (\<lambda>(idx, p). bind (lift (lst_entry ids idx p)) (\<lambda>(fname, line). append_text fname line)) w
     = (r, w')
   \<Longrightarrow> w' = w\<lparr>disk := disk w'\<rparr>
     \<and> for_each xs (\<lambda>(idx, p). bind (lift (lst_entry ids idx p)) (\<lambda>(fname, line). append_text fname line))
          (v\<lparr>disk := disk w\<rparr>) = (r, v\<lparr>disk := disk w'\<rparr>)"
proof -
  define body where
    "body = (\<lambda>(idx, p). bind (lift (lst_entry ids idx p)) (\<lambda>(fname, line). append_text fname line))"
  have "for_each xs body w = (r, w')
        \<Longrightarrow> w' = w\<lparr>disk := disk w'\<rparr>
            \<and> for_each xs body (v\<lparr>disk := disk w\<rparr>) = (r, v\<lparr>disk := disk w'\<rparr>)"
  proof (induction xs arbitrary: w v)
    case Nil
    then show ?case by (auto simp: ret_def)
  next
    case (Cons x xs)
    obtain idx p where x: "x = (idx, p)" by (cases x)
    show ?case
    proof (cases "lst_entry ids idx p")
      case (Inl e)
      have one: "body x u = (Inl e, u)" for u
        using lst_round [of ids idx p u] Inl x by (simp add: body_def)
      have "r = Inl e \<and> w' = w"
        using Cons.prems bind_Inl [where m = "body x" and w = w and f = "\<lambda>_. for_each xs body", OF one] by simp
      then show ?thesis using bind_Inl [where m = "body x" and w = "v\<lparr>disk := disk w\<rparr>"
          and f = "\<lambda>_. for_each xs body", OF one] by simp
    next
      case (Inr fl)
      obtain fname line where fl: "fl = (fname, line)" by (cases fl)
      let ?step = "\<lambda>d. d\<lparr>text_files := (text_files d)
               (fname \<mapsto> (case text_files d fname of None \<Rightarrow> [] | Some old \<Rightarrow> old) @ line)\<rparr>"
      have one: "body x u = (Inr (), u\<lparr>disk := ?step (disk u)\<rparr>)" for u
        using lst_round [of ids idx p u] Inr fl x by (simp add: body_def)
      have rest: "for_each xs body (w\<lparr>disk := ?step (disk w)\<rparr>) = (r, w')"
        using Cons.prems bind_Inr [where m = "body x" and w = w and f = "\<lambda>_. for_each xs body", OF one] by simp
      note ih = Cons.IH [OF rest, of v]
      have "w' = w\<lparr>disk := disk w'\<rparr>" using ih by simp
      moreover have "for_each (x # xs) body (v\<lparr>disk := disk w\<rparr>) = (r, v\<lparr>disk := disk w'\<rparr>)"
        using ih bind_Inr [where m = "body x" and w = "v\<lparr>disk := disk w\<rparr>"
          and f = "\<lambda>_. for_each xs body", OF one] by simp
      ultimately show ?thesis by simp
    qed
  qed
  then show "for_each xs (\<lambda>(idx, p). bind (lift (lst_entry ids idx p)) (\<lambda>(fname, line). append_text fname line)) w
     = (r, w')
   \<Longrightarrow> w' = w\<lparr>disk := disk w'\<rparr>
     \<and> for_each xs (\<lambda>(idx, p). bind (lift (lst_entry ids idx p)) (\<lambda>(fname, line). append_text fname line))
          (v\<lparr>disk := disk w\<rparr>) = (r, v\<lparr>disk := disk w'\<rparr>)"
    unfolding body_def .
qed

lemma lst_loop_ok:
  assumes "\<forall>x \<in> set xs. 3 \<le> length (snd x) \<and> ids (snd x ! (length (snd x) - 2)) \<noteq> None"
  shows "for_each xs (\<lambda>(idx, p). bind (lift (lst_entry ids idx p)) (\<lambda>(fname, line). append_text fname line)) w
     = (Inr (), w\<lparr>disk := (disk w)\<lparr>text_files := (\<lambda>fname.
          if \<exists>x \<in> set xs. lst_name (snd x) = fname
          then Some ((case text_files (disk w) fname of None \<Rightarrow> [] | Some old \<Rightarrow> old)
                     @ lst_lines ids xs fname)
          else text_files (disk w) fname)\<rparr>\<rparr>)"
proof -
  define body where
    "body = (\<lambda>(idx, p). bind (lift (lst_entry ids idx p)) (\<lambda>(fname, line). append_text fname line))"
  have "for_each xs body w
     = (Inr (), w\<lparr>disk := (disk w)\<lparr>text_files := (\<lambda>fname.
          if \<exists>x \<in> set xs. lst_name (snd x) = fname
          then Some ((case text_files (disk w) fname of None \<Rightarrow> [] | Some old \<Rightarrow> old)
                     @ lst_lines ids xs fname)
          else text_files (disk w) fname)\<rparr>\<rparr>)"
    using assms
  proof (induction xs arbitrary: w)
    case Nil
    show ?case by (simp add: ret_def)
  next
    case (Cons x xs)
    obtain idx p where x: "x = (idx, p)" by (cases x)
    have e: "lst_entry ids idx p = Inr (lst_name p, lst_line ids (idx, p))"
      using Cons.prems x by (simp add: lst_entry_ok)
    have ih: "\<forall>x \<in> set xs. 3 \<le> length (snd x) \<and> ids (snd x ! (length (snd x) - 2)) \<noteq> None"
      using Cons.prems by simp
    let ?w1 = "w\<lparr>disk := (disk w)\<lparr>text_files := (text_files (disk w))
             (lst_name p \<mapsto> (case text_files (disk w) (lst_name p) of None \<Rightarrow> [] | Some old \<Rightarrow> old)
                @ lst_line ids (idx, p))\<rparr>\<rparr>"
    have one: "body x w = (Inr (), ?w1)"
      using lst_round [of ids idx p w] e x by (simp add: body_def)
    have "for_each (x # xs) body w = for_each xs body ?w1"
      using bind_Inr [where m = "body x" and w = w and f = "\<lambda>_. for_each xs body", OF one] by simp
    also have "\<dots> = (Inr (), ?w1\<lparr>disk := (disk ?w1)\<lparr>text_files := (\<lambda>fname.
          if \<exists>x \<in> set xs. lst_name (snd x) = fname
          then Some ((case text_files (disk ?w1) fname of None \<Rightarrow> [] | Some old \<Rightarrow> old)
                     @ lst_lines ids xs fname)
          else text_files (disk ?w1) fname)\<rparr>\<rparr>)"
      by (rule Cons.IH [OF ih])
    also have "\<dots> = (Inr (), w\<lparr>disk := (disk w)\<lparr>text_files := (\<lambda>fname.
          if \<exists>x \<in> set (x # xs). lst_name (snd x) = fname
          then Some ((case text_files (disk w) fname of None \<Rightarrow> [] | Some old \<Rightarrow> old)
                     @ lst_lines ids (x # xs) fname)
          else text_files (disk w) fname)\<rparr>\<rparr>)"
      by (auto simp: x lst_lines_def fun_eq_iff split: option.splits)
    finally show ?case .
  qed
  then show ?thesis unfolding body_def .
qed

lemma manual_lst_loop:
  "manual_lst ids w =
     for_each (enumerate 0 (jpg_paths (disk w)))
       (\<lambda>(idx, p). bind (lift (lst_entry ids idx p)) (\<lambda>(fname, line). append_text fname line)) w"
  by (simp add: manual_lst_def bind_def gets_def)

lemma manual_lst_ok:
  assumes ok: "\<forall>p \<in> set (jpg_paths (disk w)). 3 \<le> length p \<and> ids (p ! (length p - 2)) \<noteq> None"
  shows "manual_lst ids w =
            (Inr (), w\<lparr>disk := (disk w)\<lparr>text_files := (\<lambda>fname.
               if \<exists>p \<in> set (jpg_paths (disk w)). lst_name p = fname
               then Some ((case text_files (disk w) fname of None \<Rightarrow> [] | Some old \<Rightarrow> old)
                          @ lst_lines ids (enumerate 0 (jpg_paths (disk w))) fname)
               else text_files (disk w) fname)\<rparr>\<rparr>)"
proof -
  have all: "\<forall>x \<in> set (enumerate 0 (jpg_paths (disk w))).
               3 \<le> length (snd x) \<and> ids (snd x ! (length (snd x) - 2)) \<noteq> None"
    using ok by (auto simp: in_set_enumerate_eq)
  have names: "(\<exists>x \<in> set (enumerate 0 (jpg_paths (disk w))). lst_name (snd x) = fname)
                 = (\<exists>p \<in> set (jpg_paths (disk w)). lst_name p = fname)" for fname
  proof -
    have "snd ` set (enumerate 0 (jpg_paths (disk w))) = set (jpg_paths (disk w))"
      using set_map [of snd "enumerate 0 (jpg_paths (disk w))"] by simp
    then have "(\<exists>p \<in> set (jpg_paths (disk w)). lst_name p = fname)
                 = (\<exists>p \<in> snd ` set (enumerate 0 (jpg_paths (disk w))). lst_name p = fname)"
      by simp
    then show ?thesis by blast
  qed
  show ?thesis
    unfolding manual_lst_loop lst_loop_ok [OF all] names ..
qed

text \<open>
  C1, amended. The manifest loop of the preprocessing notebook is logic of the repository
  that a unit test can check. It calls nothing and changes nothing but the local disk. Its
  result and the disk it leaves depend on the disk it starts from and on \<open>category_ids\<close>
  only. When every image path has at least three parts and the name of its parent
  directory is a key of \<open>category_ids\<close>, the loop completes, and each file
  \<open><parts[-3]>.lst\<close> of some image holds what it held before, followed by the lines of its
  images in the order of enumeration: the position of the image among all images padded
  with zeros to ten digits, a tab, the id of \<open>parts[-2]\<close>, a tab, the path, a newline. No
  other file changes.
\<close>

theorem manual_lst_is_a_function_of_the_disk:
  "(\<forall>w. trace (snd (manual_lst ids w)) = trace w
        \<and> snd (manual_lst ids w) = w\<lparr>disk := disk (snd (manual_lst ids w))\<rparr>)
   \<and> (\<forall>w v. disk v = disk w \<longrightarrow>
          fst (manual_lst ids v) = fst (manual_lst ids w)
        \<and> disk (snd (manual_lst ids v)) = disk (snd (manual_lst ids w)))
   \<and> (\<forall>w. (\<forall>p \<in> set (jpg_paths (disk w)). 3 \<le> length p \<and> ids (p ! (length p - 2)) \<noteq> None) \<longrightarrow>
          manual_lst ids w =
            (Inr (), w\<lparr>disk := (disk w)\<lparr>text_files := (\<lambda>fname.
               if \<exists>p \<in> set (jpg_paths (disk w)). lst_name p = fname
               then Some ((case text_files (disk w) fname of None \<Rightarrow> [] | Some old \<Rightarrow> old)
                          @ lst_lines ids (enumerate 0 (jpg_paths (disk w))) fname)
               else text_files (disk w) fname)\<rparr>\<rparr>))"
proof (intro conjI allI impI)
  let ?loop = "\<lambda>w. for_each (enumerate 0 (jpg_paths (disk w)))
     (\<lambda>(idx, p). bind (lift (lst_entry ids idx p)) (\<lambda>(fname, line). append_text fname line))"
  have local: "snd (manual_lst ids w) = w\<lparr>disk := disk (snd (manual_lst ids w))\<rparr>" for w
    using lst_loop_local [of "enumerate 0 (jpg_paths (disk w))" ids w "fst (?loop w w)" "snd (?loop w w)"]
    by (simp add: manual_lst_loop)
  fix w :: world
  show "snd (manual_lst ids w) = w\<lparr>disk := disk (snd (manual_lst ids w))\<rparr>" by (rule local)
  show "trace (snd (manual_lst ids w)) = trace w"
    by (subst local) simp
  {
    fix v :: world
    assume same: "disk v = disk w"
    have "?loop w (v\<lparr>disk := disk w\<rparr>)
            = (fst (?loop w w), v\<lparr>disk := disk (snd (?loop w w))\<rparr>)"
      using lst_loop_local [of "enumerate 0 (jpg_paths (disk w))" ids w "fst (?loop w w)" "snd (?loop w w)" v]
      by simp
    moreover have "v\<lparr>disk := disk w\<rparr> = v" using same by simp
    ultimately have "manual_lst ids v = (fst (manual_lst ids w), v\<lparr>disk := disk (snd (manual_lst ids w))\<rparr>)"
      using same by (simp add: manual_lst_loop)
    then show "fst (manual_lst ids v) = fst (manual_lst ids w)"
      and "disk (snd (manual_lst ids v)) = disk (snd (manual_lst ids w))"
      by simp_all
  }
  {
    assume "\<forall>p \<in> set (jpg_paths (disk w)). 3 \<le> length p \<and> ids (p ! (length p - 2)) \<noteq> None"
    then show "manual_lst ids w =
            (Inr (), w\<lparr>disk := (disk w)\<lparr>text_files := (\<lambda>fname.
               if \<exists>p \<in> set (jpg_paths (disk w)). lst_name p = fname
               then Some ((case text_files (disk w) fname of None \<Rightarrow> [] | Some old \<Rightarrow> old)
                          @ lst_lines ids (enumerate 0 (jpg_paths (disk w))) fname)
               else text_files (disk w) fname)\<rparr>\<rparr>)"
      by (rule manual_lst_ok)
  }
qed

lemma pictures_disk:
  "jpg_paths (disk pictures) =
     [[''data_structured'', ''train'', ''cat'', ''a.jpg''],
      [''data_structured'', ''train'', ''dog'', ''c.jpg''],
      [''data_structured'', ''val'', ''dog'', ''b.jpg'']]"
  "text_files (disk pictures) = Map.empty"
  "trace pictures = []"
  by (simp_all add: pictures_def quiet_def empty_disk_def)

theorem manual_lst_is_a_function_of_the_disk_witness:
  "list_all (\<lambda>p. 3 \<le> length p \<and> [''cat'' \<mapsto> 0 :: nat, ''dog'' \<mapsto> 1] (p ! (length p - 2)) \<noteq> None)
     (jpg_paths (disk pictures))
   \<and> fst (manual_lst [''cat'' \<mapsto> 0, ''dog'' \<mapsto> 1] pictures) = Inr ()
   \<and> text_files (disk (snd (manual_lst [''cat'' \<mapsto> 0, ''dog'' \<mapsto> 1] pictures))) ''val.lst''
       = Some (''0000000002'' @ [CHR 0x09] @ ''1'' @ [CHR 0x09]
                 @ ''data_structured/val/dog/b.jpg'' @ [CHR 0x0A])
   \<and> text_files (disk (snd (manual_lst [''cat'' \<mapsto> 0, ''dog'' \<mapsto> 1] pictures))) ''test.lst'' = None
   \<and> disk (deploy_fails\<lparr>disk := disk pictures\<rparr>) = disk pictures
   \<and> disk (snd (manual_lst [''cat'' \<mapsto> 0, ''dog'' \<mapsto> 1] (deploy_fails\<lparr>disk := disk pictures\<rparr>)))
       = disk (snd (manual_lst [''cat'' \<mapsto> 0, ''dog'' \<mapsto> 1] pictures))"
proof -
  let ?ids = "[''cat'' \<mapsto> 0 :: nat, ''dog'' \<mapsto> 1]"
  have ok: "\<forall>p \<in> set (jpg_paths (disk pictures)).
       3 \<le> length p \<and> ?ids (p ! (length p - 2)) \<noteq> None"
    by (simp add: pictures_disk)
  have same: "disk (deploy_fails\<lparr>disk := disk pictures\<rparr>) = disk pictures" by simp
  note run = manual_lst_is_a_function_of_the_disk
    [of ?ids, THEN conjunct2, THEN conjunct2, THEN spec [where x = pictures], THEN mp, OF ok]
  note det = manual_lst_is_a_function_of_the_disk
    [of ?ids, THEN conjunct2, THEN conjunct1, rule_format, OF same]
  have "text_files (disk (snd (manual_lst ?ids pictures))) ''val.lst''
       = Some (''0000000002'' @ [CHR 0x09] @ ''1'' @ [CHR 0x09]
                 @ ''data_structured/val/dog/b.jpg'' @ [CHR 0x0A])"
    unfolding run
    by (simp add: pictures_disk lst_name_def lst_lines_def lst_line_def enumerate_eq_zip
          zfill_def as_posix_def str_nat.simps digit_def eval_nat_numeral)
  moreover have "text_files (disk (snd (manual_lst ?ids pictures))) ''test.lst'' = None"
    unfolding run by (simp add: pictures_disk lst_name_def)
  moreover have "fst (manual_lst ?ids pictures) = Inr ()"
    unfolding run by simp
  moreover have "list_all (\<lambda>p. 3 \<le> length p \<and> ?ids (p ! (length p - 2)) \<noteq> None)
     (jpg_paths (disk pictures))"
    using ok by (simp only: list_all_iff)
  ultimately show ?thesis using det same by blast
qed

lemma sorted_labels: "sort (map snd [(''n01'', ''dog''), (''n02'', ''cat'')]) = [''cat'', ''dog'']"
  by code_simp

lemma dog_and_cat:
  "category_ids [(''n01'', ''dog''), (''n02'', ''cat'')] = [''cat'' \<mapsto> 0, ''dog'' \<mapsto> 1]"
  by (simp add: category_ids_def sorted_labels)

lemma manifest_of_pictures:
  "manual_lst [''cat'' \<mapsto> 0, ''dog'' \<mapsto> 1] pictures =
     (Inr (), pictures\<lparr>disk := (disk pictures)\<lparr>text_files := (\<lambda>fname.
        if \<exists>p \<in> set (jpg_paths (disk pictures)). lst_name p = fname
        then Some ((case text_files (disk pictures) fname of None \<Rightarrow> [] | Some old \<Rightarrow> old)
                   @ lst_lines [''cat'' \<mapsto> 0, ''dog'' \<mapsto> 1]
                       (enumerate 0 (jpg_paths (disk pictures))) fname)
        else text_files (disk pictures) fname)\<rparr>\<rparr>)"
  by (rule manual_lst_ok) (simp add: pictures_disk)

text \<open>
  C1 as stated fails. A unit test of the manifest loop: with the category labels \<open>dog\<close> and
  \<open>cat\<close> and three images on the disk, the loop makes no call and leaves \<open>train.lst\<close> and
  \<open>val.lst\<close> with these lines. What the loop writes is computed in the notebook from the
  paths and the labels; it is not a parameter of an SDK call.
\<close>

theorem manifest_unit_test_counterexample:
  "fst (manual_lst (category_ids [(''n01'', ''dog''), (''n02'', ''cat'')]) pictures) = Inr ()
   \<and> trace (snd (manual_lst (category_ids [(''n01'', ''dog''), (''n02'', ''cat'')]) pictures)) = []
   \<and> text_files (disk (snd (manual_lst (category_ids [(''n01'', ''dog''), (''n02'', ''cat'')])
                               pictures))) ''train.lst''
       = Some (''0000000000'' @ [CHR 0x09] @ ''0'' @ [CHR 0x09]
                 @ ''data_structured/train/cat/a.jpg'' @ [CHR 0x0A]
               @ ''0000000001'' @ [CHR 0x09] @ ''1'' @ [CHR 0x09]
                 @ ''data_structured/train/dog/c.jpg'' @ [CHR 0x0A])
   \<and> text_files (disk (snd (manual_lst (category_ids [(''n01'', ''dog''), (''n02'', ''cat'')])
                               pictures))) ''val.lst''
       = Some (''0000000002'' @ [CHR 0x09] @ ''1'' @ [CHR 0x09]
                 @ ''data_structured/val/dog/b.jpg'' @ [CHR 0x0A])"
  unfolding dog_and_cat manifest_of_pictures
  by (simp add: pictures_disk lst_name_def lst_lines_def lst_line_def enumerate_eq_zip
        zfill_def as_posix_def str_nat.simps digit_def eval_nat_numeral)

end
